theory Spec2Isabelle
  imports Complex_Main
begin

section \<open>JavaScript strings and values\<close>

text \<open>
  The script under study is the third, most featureful variant of the quote widget
  (the one with server synchronisation). A JavaScript string is the list of its UTF-16
  code units. The literals of the script are ASCII: \<open>js s\<close> is the string whose code
  units are the characters of \<open>s\<close>.
\<close>

type_synonym jsstring = "nat list"

definition js :: "string \<Rightarrow> jsstring" where
  "js s = map of_char s"

text \<open>
  Values that come out of \<^verbatim>\<open>JSON.parse\<close> are modelled by the datatype \<open>json\<close>; an object
  is its property list in insertion order, with pairwise distinct keys, and a number is
  an integer. A property that is absent reads as \<^verbatim>\<open>undefined\<close>, which is \<open>None\<close> here.
\<close>

datatype json =
    JNull
  | JBool bool
  | JNum int
  | JStr jsstring
  | JArr "json list"
  | JObj "(jsstring \<times> json) list"

datatype js_error = SyntaxError | TypeError | Error string

text \<open>The operators the script applies to parsed values.\<close>

fun truthy :: "json \<Rightarrow> bool" where
  "truthy JNull = False"
| "truthy (JBool b) = b"
| "truthy (JNum n) = (n \<noteq> 0)"
| "truthy (JStr s) = (s \<noteq> [])"
| "truthy (JArr xs) = True"
| "truthy (JObj ps) = True"

fun typeof :: "json option \<Rightarrow> string" where
  "typeof None = ''undefined''"
| "typeof (Some JNull) = ''object''"
| "typeof (Some (JBool b)) = ''boolean''"
| "typeof (Some (JNum n)) = ''number''"
| "typeof (Some (JStr s)) = ''string''"
| "typeof (Some (JArr xs)) = ''object''"
| "typeof (Some (JObj ps)) = ''object''"

text \<open>
  Reading a named property (\<^verbatim>\<open>text\<close>, \<^verbatim>\<open>category\<close>, \<^verbatim>\<open>serverId\<close>, \<^verbatim>\<open>serverTimestamp\<close>) of a
  parsed value that is not \<^verbatim>\<open>null\<close>: only an object can have one.
\<close>

fun getProp :: "json \<Rightarrow> jsstring \<Rightarrow> json option" where
  "getProp (JObj ps) k = map_of ps k"
| "getProp v k = None"

fun stringOf :: "json option \<Rightarrow> jsstring" where
  "stringOf (Some (JStr s)) = s"
| "stringOf v = []"

fun numberOf :: "json option \<Rightarrow> int option" where
  "numberOf (Some (JNum n)) = Some n"
| "numberOf v = None"

text \<open>
  Reading the property \<^verbatim>\<open>length\<close> of a parsed value: a \<^verbatim>\<open>TypeError\<close> on \<^verbatim>\<open>null\<close>,
  the number of elements of an array, the number of code units of a string, the
  property of that name of an object, \<^verbatim>\<open>undefined\<close> otherwise.
\<close>

fun js_length :: "json \<Rightarrow> js_error + json option" where
  "js_length JNull = Inl TypeError"
| "js_length (JArr xs) = Inr (Some (JNum (int (length xs))))"
| "js_length (JStr s) = Inr (Some (JNum (int (length s))))"
| "js_length (JObj ps) = Inr (map_of ps (js ''length''))"
| "js_length (JBool b) = Inr None"
| "js_length (JNum n) = Inr None"

section \<open>Quotes\<close>

text \<open>
  An element of the collection is an object whose \<^verbatim>\<open>text\<close> and \<^verbatim>\<open>category\<close> are strings:
  the literals of the default set, the objects the server mapping builds, and the
  objects the importer has validated. A quote is such an object, with all its
  properties in their order; \<open>properties\<close> gives the property list and \<open>Quote\<close> makes
  the quote of a property list.
\<close>

definition isQuoteProps :: "(jsstring \<times> json) list \<Rightarrow> bool" where
  "isQuoteProps ps =
     (typeof (map_of ps (js ''text'')) = ''string'' \<and>
      typeof (map_of ps (js ''category'')) = ''string'')"

typedef quote = "{ps. isQuoteProps ps}"
  morphisms properties Quote
  by (rule exI[of _ "[(js ''text'', JStr []), (js ''category'', JStr [])]"])
     (simp add: isQuoteProps_def)

text \<open>The property reads \<^verbatim>\<open>q.text\<close>, \<^verbatim>\<open>q.category\<close>, \<^verbatim>\<open>q.serverId\<close>, \<^verbatim>\<open>q.serverTimestamp\<close>.\<close>

definition "text" :: "quote \<Rightarrow> jsstring" where
  "text q = stringOf (map_of (properties q) (js ''text''))"

definition category :: "quote \<Rightarrow> jsstring" where
  "category q = stringOf (map_of (properties q) (js ''category''))"

definition serverId :: "quote \<Rightarrow> int option" where
  "serverId q = numberOf (map_of (properties q) (js ''serverId''))"

definition serverTimestamp :: "quote \<Rightarrow> int option" where
  "serverTimestamp q = numberOf (map_of (properties q) (js ''serverTimestamp''))"

text \<open>The object literal \<^verbatim>\<open>{ text: t, category: c }\<close> with ASCII strings.\<close>

definition mkQuote :: "string \<Rightarrow> string \<Rightarrow> quote" where
  "mkQuote t c = Quote [(js ''text'', JStr (js t)), (js ''category'', JStr (js c))]"

text \<open>
  A parsed object as an element of the collection: the object itself. It is applied to
  objects with a string \<^verbatim>\<open>text\<close> and a string \<^verbatim>\<open>category\<close> only.
\<close>

fun propertiesOf :: "json \<Rightarrow> (jsstring \<times> json) list" where
  "propertiesOf (JObj ps) = ps"
| "propertiesOf v = []"

definition toQuote :: "json \<Rightarrow> quote" where
  "toQuote v = Quote (propertiesOf v)"

text \<open>The template literal \<^verbatim>\<open>`${q.text}|${q.category}`\<close> of the two merge loops.\<close>

definition quoteKey :: "quote \<Rightarrow> jsstring" where
  "quoteKey q = text q @ js ''|'' @ category q"

text \<open>The pair the data model names as a quote's identity.\<close>

definition quotePair :: "quote \<Rightarrow> jsstring \<times> jsstring" where
  "quotePair q = (text q, category q)"

text \<open>What \<^verbatim>\<open>JSON.stringify\<close> writes for a quote and for an array of quotes, as a value.\<close>

definition quoteJson :: "quote \<Rightarrow> json" where
  "quoteJson q = JObj (properties q)"

definition quotesJson :: "quote list \<Rightarrow> json" where
  "quotesJson qs = JArr (map quoteJson qs)"

section \<open>Web Storage\<close>

text \<open>
  A string held in \<^verbatim>\<open>localStorage\<close>, or read from an imported file, is represented by
  what \<^verbatim>\<open>JSON.parse\<close> makes of it: \<open>JsonText v\<close> is a string that parses to the value
  \<open>v\<close> (the output of \<^verbatim>\<open>JSON.stringify\<close> on \<open>v\<close> among them), \<open>NotJson s\<close> is the
  string \<open>s\<close>, which \<^verbatim>\<open>JSON.parse\<close> rejects (the empty string, an ISO time stamp, a
  truncated document). Two outputs of \<^verbatim>\<open>JSON.stringify\<close> are equal strings exactly when
  the values are equal. \<^verbatim>\<open>getItem\<close> of an absent key is \<^verbatim>\<open>null\<close>, which is \<open>None\<close>.
\<close>

datatype stored = NotJson jsstring | JsonText json

type_synonym storage = "string \<Rightarrow> stored option"

definition QUOTES_STORAGE_KEY :: string where
  "QUOTES_STORAGE_KEY = ''dynamicQuotesApp''"

definition SERVER_QUOTES_KEY :: string where
  "SERVER_QUOTES_KEY = ''serverQuotes''"

definition LAST_SYNC_TIME_KEY :: string where
  "LAST_SYNC_TIME_KEY = ''lastSyncTime''"

definition JSON_stringify :: "json \<Rightarrow> stored" where
  "JSON_stringify v = JsonText v"

fun JSON_parse :: "stored \<Rightarrow> js_error + json" where
  "JSON_parse (NotJson s) = Inl SyntaxError"
| "JSON_parse (JsonText v) = Inr v"

text \<open>Truthiness of a string: every string but the empty one.\<close>

fun truthy_stored :: "stored \<Rightarrow> bool" where
  "truthy_stored (NotJson s) = (s \<noteq> [])"
| "truthy_stored (JsonText v) = True"

definition getItem :: "storage \<Rightarrow> string \<Rightarrow> stored option" where
  "getItem ls k = ls k"

definition setItem :: "storage \<Rightarrow> string \<Rightarrow> stored \<Rightarrow> storage" where
  "setItem ls k v = ls(k \<mapsto> v)"

section \<open>Application state\<close>

text \<open>
  The object \<^verbatim>\<open>detectConflicts\<close> returns when it finds a conflict. The other object it
  returns, \<^verbatim>\<open>{ hasConflicts: false }\<close>, is \<open>None\<close> of \<open>conflict option\<close>.
  The fields \<open>c_localQuotes\<close> and \<open>c_serverQuotes\<close> are its properties
  \<^verbatim>\<open>localQuotes\<close> and \<^verbatim>\<open>serverQuotes\<close>; \<open>prevServerCount\<close> is the \<^verbatim>\<open>length\<close>
  property of the parsed baseline, \<^verbatim>\<open>undefined\<close> when that value has none.
\<close>

record conflict =
  localCount :: nat
  serverCount :: nat
  prevServerCount :: "json option"
  c_localQuotes :: "quote list"
  c_serverQuotes :: "quote list"

text \<open>
  The module-level variables \<^verbatim>\<open>quotes\<close> and \<^verbatim>\<open>pendingConflicts\<close>, the persistent store,
  the text and type last given to \<^verbatim>\<open>updateSyncStatus\<close>, and the bodies of the POST
  requests issued so far (oldest first). \<open>quotaExceeded\<close> says that the store has no
  room for the serialised collection, so that the write under the collection key
  throws. That write is the one \<^verbatim>\<open>saveQuotes\<close> guards with a handler; the writes of the
  remote snapshot and of the last-sync instant have no handler in the script and are
  taken to succeed.
\<close>

record app =
  quotes :: "quote list"
  pendingConflicts :: "conflict option"
  localStorage :: storage
  quotaExceeded :: bool
  syncStatus :: "string \<times> string"
  posted :: "quote list list"

definition updateSyncStatus :: "string \<Rightarrow> string \<Rightarrow> app \<Rightarrow> app" where
  "updateSyncStatus message type st = st\<lparr>syncStatus := (message, type)\<rparr>"

text \<open>
  \<^verbatim>\<open>saveQuotes\<close>: the write of the serialised collection inside \<^verbatim>\<open>try\<close>. When the write
  throws, the handler reports the error and nothing is stored; the collection in
  memory stays as it is.
\<close>

definition saveQuotes :: "app \<Rightarrow> app" where
  "saveQuotes st =
     (if quotaExceeded st then st
      else st\<lparr>localStorage :=
             setItem (localStorage st) QUOTES_STORAGE_KEY
               (JSON_stringify (quotesJson (quotes st)))\<rparr>)"

section \<open>Merging\<close>

text \<open>
  The \<^verbatim>\<open>forEach\<close> loop of \<^verbatim>\<open>mergeQuotes\<close> and of the merge branch of the importer: the
  key set is computed once, before the loop, and the loop pushes every element whose
  key is not in it.
\<close>

fun pushAbsent :: "jsstring set \<Rightarrow> quote list \<Rightarrow> quote list \<Rightarrow> quote list" where
  "pushAbsent keys qs [] = qs"
| "pushAbsent keys qs (serverQuote # rest) =
     pushAbsent keys (if quoteKey serverQuote \<notin> keys then qs @ [serverQuote] else qs) rest"

definition mergeQuotes :: "quote list \<Rightarrow> bool \<Rightarrow> app \<Rightarrow> app" where
  "mergeQuotes serverQuotes replaceAll st =
     saveQuotes
       (if replaceAll then st\<lparr>quotes := serverQuotes\<rparr>
        else
          let localQuoteKeys = set (map quoteKey (quotes st))
          in st\<lparr>quotes := pushAbsent localQuoteKeys (quotes st) serverQuotes\<rparr>)"

section \<open>The remote client\<close>

text \<open>
  A record of the remote endpoint, \<^verbatim>\<open>{ id, userId, title }\<close> (the field \<open>postId\<close> is its
  \<^verbatim>\<open>id\<close>), and what \<^verbatim>\<open>fetch\<close> gives: a rejected promise, or a response with its \<^verbatim>\<open>ok\<close>
  flag, its status and its body as \<^verbatim>\<open>response.json()\<close> reads it (\<open>None\<close> when that
  call rejects).
\<close>

record post =
  postId :: int
  userId :: int
  title :: jsstring

datatype 'b response = NetworkFailure | Response bool nat "'b option"

text \<open>
  The remainder operator \<^verbatim>\<open>%\<close> on integers: the result has the sign of the dividend.
\<close>

definition js_rem :: "int \<Rightarrow> int \<Rightarrow> int" where
  "js_rem a b = sgn a * (\<bar>a\<bar> mod \<bar>b\<bar>)"

text \<open>
  The arrow function given to \<^verbatim>\<open>map\<close>; \<open>now\<close> is the value \<^verbatim>\<open>Date.now()\<close> has when the
  element is mapped.
\<close>

definition toServerQuote :: "int \<Rightarrow> post \<Rightarrow> quote" where
  "toServerQuote now p =
     Quote [(js ''text'', JStr (title p)),
            (js ''category'', JStr (if js_rem (userId p) 2 = 0 then js ''Server'' else js ''Remote'')),
            (js ''serverId'', JNum (postId p)),
            (js ''serverTimestamp'', JNum now)]"

text \<open>
  \<^verbatim>\<open>fetchQuotesFromServer\<close>: \<open>clock i\<close> is \<^verbatim>\<open>Date.now()\<close> at the \<open>i\<close>-th mapped element.
  Every failure inside the \<^verbatim>\<open>try\<close> block ends in the handler, which sets the error
  status and returns \<^verbatim>\<open>null\<close>.
\<close>

definition fetchQuotesFromServer ::
  "post list response \<Rightarrow> (nat \<Rightarrow> int) \<Rightarrow> app \<Rightarrow> quote list option \<times> app" where
  "fetchQuotesFromServer resp clock st =
     (let st1 = updateSyncStatus ''Fetching from server...'' ''info'' st;
          failed = (None, updateSyncStatus ''Failed to fetch from server'' ''error'' st1)
      in case resp of
           NetworkFailure \<Rightarrow> failed
         | Response ok status body \<Rightarrow>
             if \<not> ok then failed
             else (case body of
                     None \<Rightarrow> failed
                   | Some serverData \<Rightarrow>
                       (Some (map (\<lambda>(i, p). toServerQuote (clock i) p)
                                (enumerate 0 (take 10 serverData))), st1)))"

text \<open>
  \<^verbatim>\<open>postQuotesToServer\<close>: the request is issued, then any failure is caught and answered
  with \<^verbatim>\<open>false\<close>.
\<close>

definition postQuotesToServer :: "quote list \<Rightarrow> json response \<Rightarrow> app \<Rightarrow> bool \<times> app" where
  "postQuotesToServer quotesToPost resp st =
     (let st1 = updateSyncStatus ''Posting to server...'' ''info'' st;
          st2 = st1\<lparr>posted := posted st1 @ [quotesToPost]\<rparr>
      in case resp of
           NetworkFailure \<Rightarrow> (False, st2)
         | Response ok status body \<Rightarrow>
             if \<not> ok then (False, st2)
             else (case body of None \<Rightarrow> (False, st2) | Some result \<Rightarrow> (True, st2)))"

section \<open>Conflict detection and the sync cycle\<close>

definition detectConflicts ::
  "quote list \<Rightarrow> quote list \<Rightarrow> storage \<Rightarrow> js_error + conflict option" where
  "detectConflicts localQuotes serverQuotes ls =
     (case getItem ls LAST_SYNC_TIME_KEY of
        None \<Rightarrow> Inr None
      | Some lastSyncTime \<Rightarrow>
          (case getItem ls SERVER_QUOTES_KEY of
             None \<Rightarrow> Inr None
           | Some previousServerQuotes \<Rightarrow>
               if \<not> truthy_stored lastSyncTime \<or> \<not> truthy_stored previousServerQuotes
               then Inr None
               else (case JSON_parse previousServerQuotes of
                       Inl e \<Rightarrow> Inl e
                     | Inr prevServerQuotes \<Rightarrow>
                         (case js_length prevServerQuotes of
                            Inl e \<Rightarrow> Inl e
                          | Inr prevLength \<Rightarrow>
                              let localModified = (Some (JNum (int (length localQuotes))) \<noteq> prevLength);
                                  serverModified =
                                    (JSON_stringify (quotesJson serverQuotes) \<noteq> JSON_stringify prevServerQuotes)
                              in if localModified \<and> serverModified
                                 then Inr (Some \<lparr>localCount = length localQuotes,
                                                 serverCount = length serverQuotes,
                                                 prevServerCount = prevLength,
                                                 c_localQuotes = localQuotes,
                                                 c_serverQuotes = serverQuotes\<rparr>)
                                 else Inr None))))"

definition showConflictNotification :: "conflict \<Rightarrow> app \<Rightarrow> app" where
  "showConflictNotification conflicts st = st\<lparr>pendingConflicts := Some conflicts\<rparr>"

text \<open>
  \<^verbatim>\<open>syncWithServer\<close>. \<open>resp\<close> answers the GET and \<open>postResp\<close> the POST; \<open>nowIso\<close> is
  \<^verbatim>\<open>new Date().toISOString()\<close>. An exception that leaves \<^verbatim>\<open>detectConflicts\<close> is not
  caught: the result is then \<open>Inl\<close>, with the state as it stood.
\<close>

definition syncWithServer ::
  "post list response \<Rightarrow> json response \<Rightarrow> (nat \<Rightarrow> int) \<Rightarrow> jsstring \<Rightarrow> app
     \<Rightarrow> (js_error \<times> app) + app" where
  "syncWithServer resp postResp clock nowIso st =
     (let st0 = updateSyncStatus ''Syncing...'' ''info'' st;
          (fetched, st1) = fetchQuotesFromServer resp clock st0
      in case fetched of
           None \<Rightarrow> Inr st1
         | Some serverQuotes \<Rightarrow>
             (let localQuotes = quotes st1;
                  st2 = st1\<lparr>localStorage :=
                          setItem (localStorage st1) SERVER_QUOTES_KEY
                            (JSON_stringify (quotesJson serverQuotes))\<rparr>
              in (case detectConflicts localQuotes serverQuotes (localStorage st2) of
                   Inl e \<Rightarrow> Inl (e, st2)
                 | Inr (Some conflicts) \<Rightarrow>
                     Inr (updateSyncStatus ''Conflicts detected'' ''warning''
                            (showConflictNotification conflicts st2))
                 | Inr None \<Rightarrow>
                     (let st3 = mergeQuotes serverQuotes False st2;
                          (sent, st4) = postQuotesToServer (quotes st3) postResp st3;
                          st5 = st4\<lparr>localStorage :=
                                  setItem (localStorage st4) LAST_SYNC_TIME_KEY (NotJson nowIso)\<rparr>
                      in Inr (updateSyncStatus ''Synced successfully'' ''success'' st5)))))"

text \<open>\<^verbatim>\<open>resolveConflict\<close>: it returns at once when no conflict is pending.\<close>

definition resolveConflict :: "bool \<Rightarrow> jsstring \<Rightarrow> app \<Rightarrow> app" where
  "resolveConflict useServerVersion nowIso st =
     (case pendingConflicts st of
        None \<Rightarrow> st
      | Some pending \<Rightarrow>
          let st1 = (if useServerVersion then mergeQuotes (c_serverQuotes pending) True st else st);
              st2 = st1\<lparr>localStorage :=
                      setItem (localStorage st1) LAST_SYNC_TIME_KEY (NotJson nowIso)\<rparr>;
              st3 = st2\<lparr>localStorage :=
                      setItem (localStorage st2) SERVER_QUOTES_KEY
                        (JSON_stringify (quotesJson (c_serverQuotes pending)))\<rparr>;
              st4 = st3\<lparr>pendingConflicts := None\<rparr>
          in updateSyncStatus ''Conflict resolved'' ''success'' st4)"

section \<open>Import\<close>

text \<open>
  \<^verbatim>\<open>String.prototype.trim\<close> removes white space and line terminators from both ends.
  The code units it removes: tab, line feed, vertical tab, form feed, carriage
  return, space, no-break space, the other space separators of Unicode (U+1680,
  U+2000 to U+200A, U+202F, U+205F, U+3000), the line and paragraph separators
  (U+2028, U+2029) and the byte order mark (U+FEFF).
\<close>

definition isWhiteSpace :: "nat \<Rightarrow> bool" where
  "isWhiteSpace c =
     (c \<in> {0x9, 0xA, 0xB, 0xC, 0xD, 0x20, 0xA0, 0x1680, 0x2028, 0x2029, 0x202F, 0x205F,
            0x3000, 0xFEFF} \<or>
      (0x2000 \<le> c \<and> c \<le> 0x200A))"

definition trim :: "jsstring \<Rightarrow> jsstring" where
  "trim s = rev (dropWhile isWhiteSpace (rev (dropWhile isWhiteSpace s)))"

text \<open>The predicate of \<^verbatim>\<open>importedQuotes.filter\<close>, conjunct by conjunct.\<close>

definition isValidQuote :: "json \<Rightarrow> bool" where
  "isValidQuote quote =
     (truthy quote \<and>
      typeof (Some quote) = ''object'' \<and>
      typeof (getProp quote (js ''text'')) = ''string'' \<and>
      typeof (getProp quote (js ''category'')) = ''string'' \<and>
      trim (stringOf (getProp quote (js ''text''))) \<noteq> [] \<and>
      trim (stringOf (getProp quote (js ''category''))) \<noteq> [])"

text \<open>
  The \<^verbatim>\<open>try\<close> block of the \<^verbatim>\<open>onload\<close> handler of \<^verbatim>\<open>importFromJsonFile\<close>: \<open>content\<close> is
  the text of the file and \<open>shouldReplace\<close> the answer to \<^verbatim>\<open>confirm\<close>. Every \<^verbatim>\<open>throw\<close>
  comes before the first assignment to \<^verbatim>\<open>quotes\<close>. The elements that pass the filter
  are the objects assigned or pushed, as they are.
\<close>

definition importOnload_try :: "stored \<Rightarrow> bool \<Rightarrow> app \<Rightarrow> js_error + app" where
  "importOnload_try content shouldReplace st =
     (case JSON_parse content of
        Inl e \<Rightarrow> Inl e
      | Inr importedQuotes \<Rightarrow>
          (case importedQuotes of
             JArr elements \<Rightarrow>
               let validQuotes = filter isValidQuote elements
               in if length validQuotes = 0
                  then Inl (Error ''No valid quotes found in the file'')
                  else if shouldReplace
                  then Inr (saveQuotes (st\<lparr>quotes := map toQuote validQuotes\<rparr>))
                  else
                    let existingQuotesSet = set (map quoteKey (quotes st))
                    in Inr (saveQuotes
                         (st\<lparr>quotes :=
                            pushAbsent existingQuotesSet (quotes st) (map toQuote validQuotes)\<rparr>))
           | _ \<Rightarrow> Inl (Error ''Invalid format: Expected an array of quotes'')))"

text \<open>
  The handler as a whole: the \<^verbatim>\<open>catch\<close> clause reports the error in an alert and leaves
  the state as the \<^verbatim>\<open>try\<close> block found it. The first component is the error reported,
  if any.
\<close>

definition importOnload :: "stored \<Rightarrow> bool \<Rightarrow> app \<Rightarrow> js_error option \<times> app" where
  "importOnload content shouldReplace st =
     (case importOnload_try content shouldReplace st of
        Inl error \<Rightarrow> (Some error, st)
      | Inr st' \<Rightarrow> (None, st'))"

section \<open>Loading the collection\<close>

text \<open>The array literal of \<^verbatim>\<open>initializeDefaultQuotes\<close>.\<close>

definition defaultQuotes :: "quote list" where
  "defaultQuotes =
     [mkQuote ''The only way to do great work is to love what you do.'' ''Motivation'',
      mkQuote ''Innovation distinguishes between a leader and a follower.'' ''Leadership'',
      mkQuote ''Life is what happens when you're busy making other plans.'' ''Life'',
      mkQuote ''The future belongs to those who believe in the beauty of their dreams.''
        ''Motivation'',
      mkQuote ''It is during our darkest moments that we must focus to see the light.''
        ''Inspiration'',
      mkQuote ''The only impossible journey is the one you never begin.'' ''Motivation'',
      mkQuote ''In the middle of difficulty lies opportunity.'' ''Inspiration'',
      mkQuote
        ''Leadership is not about being in charge. It's about taking care of those in your charge.''
        ''Leadership'',
      mkQuote ''Life is 10% what happens to you and 90% how you react to it.'' ''Life'',
      mkQuote
        ''The best time to plant a tree was 20 years ago. The second best time is now.''
        ''Wisdom'']"

definition initializeDefaultQuotes :: "app \<Rightarrow> app" where
  "initializeDefaultQuotes st = saveQuotes (st\<lparr>quotes := defaultQuotes\<rparr>)"

text \<open>
  \<^verbatim>\<open>loadQuotes\<close> assigns to \<^verbatim>\<open>quotes\<close> whatever \<^verbatim>\<open>JSON.parse\<close> returns. When that value is
  an array of objects with a string \<^verbatim>\<open>text\<close> and a string \<^verbatim>\<open>category\<close>, the variable holds
  a list of quotes (\<open>Typed\<close>); any other value is kept as it is (\<open>Untyped\<close>, together
  with the rest of the state).
\<close>

definition isQuoteObject :: "json \<Rightarrow> bool" where
  "isQuoteObject v =
     (truthy v \<and> typeof (Some v) = ''object'' \<and>
      typeof (getProp v (js ''text'')) = ''string'' \<and>
      typeof (getProp v (js ''category'')) = ''string'')"

fun asQuotes :: "json \<Rightarrow> quote list option" where
  "asQuotes (JArr xs) = (if list_all isQuoteObject xs then Some (map toQuote xs) else None)"
| "asQuotes v = None"

datatype loaded = Typed app | Untyped json app

definition assignQuotes :: "json \<Rightarrow> app \<Rightarrow> loaded" where
  "assignQuotes v st =
     (case asQuotes v of Some qs \<Rightarrow> Typed (st\<lparr>quotes := qs\<rparr>) | None \<Rightarrow> Untyped v st)"

text \<open>
  The \<^verbatim>\<open>try\<close> block of \<^verbatim>\<open>loadQuotes\<close>: the parse, the assignment, and the read of
  \<^verbatim>\<open>quotes.length\<close> for the log line, which throws when the parsed value is \<^verbatim>\<open>null\<close>.
\<close>

definition loadQuotes_try :: "stored \<Rightarrow> app \<Rightarrow> js_error + loaded" where
  "loadQuotes_try storedQuotes st =
     (case JSON_parse storedQuotes of
        Inl e \<Rightarrow> Inl e
      | Inr v \<Rightarrow>
          (case js_length v of
             Inl e \<Rightarrow> Inl e
           | Inr n \<Rightarrow> Inr (assignQuotes v st)))"

text \<open>
  \<^verbatim>\<open>loadQuotes\<close>: the \<^verbatim>\<open>catch\<close> clause and the \<^verbatim>\<open>else\<close> branch both call
  \<^verbatim>\<open>initializeDefaultQuotes\<close>. The result is a sum so that an exception leaving the
  function would be a value \<open>Inl\<close>.
\<close>

definition loadQuotes :: "app \<Rightarrow> js_error + loaded" where
  "loadQuotes st =
     (case getItem (localStorage st) QUOTES_STORAGE_KEY of
        None \<Rightarrow> Inr (Typed (initializeDefaultQuotes st))
      | Some storedQuotes \<Rightarrow>
          if truthy_stored storedQuotes
          then (case loadQuotes_try storedQuotes st of
                  Inl error \<Rightarrow> Inr (Typed (initializeDefaultQuotes st))
                | Inr r \<Rightarrow> Inr r)
          else Inr (Typed (initializeDefaultQuotes st)))"

section \<open>Showing a random quote\<close>

text \<open>
  \<^verbatim>\<open>showRandomQuote\<close> compares objects with \<^verbatim>\<open>===\<close>, that is by reference. Here an object
  is its address paired with its contents, and \<open>strictEq\<close> compares the addresses;
  \<^verbatim>\<open>undefined\<close> (\<open>None\<close>) is equal to itself only.
\<close>

type_synonym obj = "nat \<times> quote"

fun strictEq :: "obj option \<Rightarrow> obj option \<Rightarrow> bool" where
  "strictEq None None = True"
| "strictEq (Some a) (Some b) = (fst a = fst b)"
| "strictEq a b = False"

text \<open>Reading an array at an index: \<^verbatim>\<open>undefined\<close> outside its bounds.\<close>

definition elemAt :: "'a list \<Rightarrow> int \<Rightarrow> 'a option" where
  "elemAt xs i = (if 0 \<le> i \<and> i < int (length xs) then Some (xs ! nat i) else None)"

text \<open>\<^verbatim>\<open>Array.prototype.indexOf\<close> on objects: the first index holding the reference, or -1.\<close>

fun indexFrom :: "int \<Rightarrow> obj list \<Rightarrow> obj option \<Rightarrow> int" where
  "indexFrom i [] x = -1"
| "indexFrom i (y # ys) x = (if strictEq (Some y) x then i else indexFrom (i + 1) ys x)"

definition indexOf :: "obj list \<Rightarrow> obj option \<Rightarrow> int" where
  "indexOf xs x = indexFrom 0 xs x"

text \<open>
  The \<^verbatim>\<open>do ... while\<close> loop. \<open>rand k\<close> is what the \<open>k\<close>-th call of \<^verbatim>\<open>Math.random()\<close>
  returns; the loop may draw for ever, and then the function has no value. It
  returns the index drawn last and the number of calls made so far.
\<close>

partial_function (option) drawIndex ::
  "(nat \<Rightarrow> real) \<Rightarrow> nat \<Rightarrow> obj list \<Rightarrow> obj option \<Rightarrow> (int \<times> nat) option" where
  "drawIndex rand k filteredQuotes lastQuote =
     (let randomIndex = \<lfloor>rand k * real (length filteredQuotes)\<rfloor>
      in if strictEq (elemAt filteredQuotes randomIndex) lastQuote \<and> length filteredQuotes > 1
         then drawIndex rand (Suc k) filteredQuotes lastQuote
         else Some (randomIndex, Suc k))"

text \<open>
  The variables \<^verbatim>\<open>showRandomQuote\<close> reads and writes: the collection as objects,
  \<^verbatim>\<open>lastQuoteIndex\<close>, the quote on display (\<open>None\<close> for the empty-category message)
  and the number of calls of \<^verbatim>\<open>Math.random()\<close> made.
\<close>

record view =
  objects :: "obj list"
  lastQuoteIndex :: int
  displayed :: "obj option"
  calls :: nat

text \<open>
  \<^verbatim>\<open>showRandomQuote\<close>, with the value of the category filter as an argument. Displaying
  \<^verbatim>\<open>undefined\<close> throws a \<^verbatim>\<open>TypeError\<close>, after \<^verbatim>\<open>lastQuoteIndex\<close> has been assigned.
\<close>

definition showRandomQuote ::
  "(nat \<Rightarrow> real) \<Rightarrow> jsstring \<Rightarrow> view \<Rightarrow> ((js_error \<times> view) + view) option" where
  "showRandomQuote rand selectedCategory vs =
     (let filteredQuotes =
            (if selectedCategory = js ''all'' then objects vs
             else filter (\<lambda>q. category (snd q) = selectedCategory) (objects vs))
      in if length filteredQuotes = 0 then Some (Inr (vs\<lparr>displayed := None\<rparr>))
         else
           (case (if length filteredQuotes = 1 then Some (0, calls vs)
                  else drawIndex rand (calls vs) filteredQuotes
                         (elemAt (objects vs) (lastQuoteIndex vs))) of
              None \<Rightarrow> None
            | Some (randomIndex, k) \<Rightarrow>
                (let quote = elemAt filteredQuotes randomIndex;
                     vs1 = vs\<lparr>lastQuoteIndex := indexOf (objects vs) quote, calls := k\<rparr>
                 in case quote of
                      None \<Rightarrow> Some (Inl (TypeError, vs1))
                    | Some q \<Rightarrow> Some (Inr (vs1\<lparr>displayed := Some q\<rparr>)))))"

section \<open>The importer's validation in the words of the specification\<close>

text \<open>
  The specification keeps the elements that are objects whose \<^verbatim>\<open>text\<close> and \<^verbatim>\<open>category\<close> are
  strings, non-empty after trimming: strings that hold a character other than white
  space. These functions say that without \<open>trim\<close>, for comparison with
  \<open>isValidQuote\<close>.
\<close>

definition spec_nonBlank :: "jsstring \<Rightarrow> bool" where
  "spec_nonBlank s = (\<exists>c \<in> set s. \<not> isWhiteSpace c)"

fun spec_nonBlankStrings :: "json option \<Rightarrow> json option \<Rightarrow> bool" where
  "spec_nonBlankStrings (Some (JStr t)) (Some (JStr c)) = (spec_nonBlank t \<and> spec_nonBlank c)"
| "spec_nonBlankStrings x y = False"

fun spec_validElement :: "json \<Rightarrow> bool" where
  "spec_validElement (JObj ps) =
     spec_nonBlankStrings (map_of ps (js ''text'')) (map_of ps (js ''category''))"
| "spec_validElement v = False"

section \<open>The conflict scenario of the specification\<close>

text \<open>
  The scenario of the specification's testable properties: a baseline snapshot of five
  quotes fetched earlier and stored with a last-sync instant, a local collection that
  has grown to seven quotes, and a remote that now answers with six records.
\<close>

definition scenarioPosts :: "post list" where
  "scenarioPosts =
     [\<lparr>postId = 1, userId = 1, title = js ''t1''\<rparr>,
      \<lparr>postId = 2, userId = 1, title = js ''t2''\<rparr>,
      \<lparr>postId = 3, userId = 2, title = js ''t3''\<rparr>,
      \<lparr>postId = 4, userId = 2, title = js ''t4''\<rparr>,
      \<lparr>postId = 5, userId = 3, title = js ''t5''\<rparr>,
      \<lparr>postId = 6, userId = 3, title = js ''t6''\<rparr>]"

definition scenarioBaseline :: "quote list" where
  "scenarioBaseline = map (toServerQuote 1000) (take 5 scenarioPosts)"

definition scenarioLocal :: "quote list" where
  "scenarioLocal = scenarioBaseline @ [mkQuote ''u1'' ''Mine'', mkQuote ''u2'' ''Mine'']"

definition scenarioRemote :: "quote list" where
  "scenarioRemote = map (toServerQuote 2000) scenarioPosts"

definition scenarioState :: app where
  "scenarioState =
     \<lparr>quotes = scenarioLocal,
      pendingConflicts = None,
      localStorage =
        [LAST_SYNC_TIME_KEY \<mapsto> NotJson (js ''2024-01-01T00:00:00.000Z''),
         SERVER_QUOTES_KEY \<mapsto> JSON_stringify (quotesJson scenarioBaseline)],
      quotaExceeded = False,
      syncStatus = ([], []),
      posted = []\<rparr>"

definition scenarioConflict :: conflict where
  "scenarioConflict =
     \<lparr>localCount = 7, serverCount = 6, prevServerCount = Some (JNum 5),
      c_localQuotes = scenarioLocal, c_serverQuotes = scenarioRemote\<rparr>"

section \<open>Properties\<close>

subsection \<open>Strings and quotes\<close>

lemma js_eq_iff [simp]: "js s = js t \<longleftrightarrow> s = t"
  by (simp add: js_def inj_map_eq_map inj_on_def)

lemma js_append: "js (s @ t) = js s @ js t"
  by (simp add: js_def)

lemma js_eq_Nil [simp]: "js s = [] \<longleftrightarrow> s = []"
  by (simp add: js_def)

lemma properties_Quote: "isQuoteProps ps \<Longrightarrow> properties (Quote ps) = ps"
  by (simp add: Quote_inverse)

lemma isQuoteProps_properties: "isQuoteProps (properties q)"
  using properties[of q] by simp

lemma quote_eq_iff: "p = q \<longleftrightarrow> properties p = properties q"
  by (simp add: properties_inject)

lemma properties_mkQuote:
  "properties (mkQuote t c) = [(js ''text'', JStr (js t)), (js ''category'', JStr (js c))]"
  by (simp add: mkQuote_def properties_Quote isQuoteProps_def)

lemma text_mkQuote: "text (mkQuote t c) = js t"
  by (simp add: text_def properties_mkQuote)

lemma category_mkQuote: "category (mkQuote t c) = js c"
  by (simp add: category_def properties_mkQuote)

lemma quoteKey_mkQuote: "quoteKey (mkQuote t c) = js (t @ ''|'' @ c)"
  by (simp add: quoteKey_def text_mkQuote category_mkQuote js_def)

lemma quotePair_mkQuote: "quotePair (mkQuote t c) = (js t, js c)"
  by (simp add: quotePair_def text_mkQuote category_mkQuote)

lemma mkQuote_eq_iff: "mkQuote t c = mkQuote t' c' \<longleftrightarrow> t = t' \<and> c = c'"
  by (simp add: quote_eq_iff properties_mkQuote)

lemma properties_toServerQuote:
  "properties (toServerQuote now p) =
     [(js ''text'', JStr (title p)),
      (js ''category'', JStr (if js_rem (userId p) 2 = 0 then js ''Server'' else js ''Remote'')),
      (js ''serverId'', JNum (postId p)),
      (js ''serverTimestamp'', JNum now)]"
  by (simp add: toServerQuote_def properties_Quote isQuoteProps_def)

lemma text_toServerQuote: "text (toServerQuote now p) = title p"
  by (simp add: text_def properties_toServerQuote)

lemma serverId_toServerQuote: "serverId (toServerQuote now p) = Some (postId p)"
  by (simp add: serverId_def properties_toServerQuote)

lemma serverTimestamp_toServerQuote: "serverTimestamp (toServerQuote now p) = Some now"
  by (simp add: serverTimestamp_def properties_toServerQuote)

text \<open>
  A quote is the object it was made of: serialising a quote and reading the object back
  gives the quote, and an object with a string text and a string category is what its
  quote serialises to.
\<close>

lemma toQuote_quoteJson: "toQuote (quoteJson q) = q"
  by (simp add: toQuote_def quoteJson_def properties_inverse)

lemma isQuoteObject_iff: "isQuoteObject v \<longleftrightarrow> (\<exists>ps. v = JObj ps \<and> isQuoteProps ps)"
  by (cases v) (auto simp: isQuoteObject_def isQuoteProps_def)

lemma isQuoteObject_quoteJson: "isQuoteObject (quoteJson q)"
  by (simp add: isQuoteObject_iff quoteJson_def isQuoteProps_properties)

lemma quoteJson_toQuote: "isQuoteObject v \<Longrightarrow> quoteJson (toQuote v) = v"
  by (auto simp: isQuoteObject_iff toQuote_def quoteJson_def properties_Quote)

subsection \<open>Merging\<close>

lemma pushAbsent_filter:
  "pushAbsent keys qs new = qs @ filter (\<lambda>q. quoteKey q \<notin> keys) new"
  by (induction new arbitrary: qs) auto

lemma quotes_saveQuotes: "quotes (saveQuotes st) = quotes st"
  by (simp add: saveQuotes_def)

lemma saveQuotes_idem: "saveQuotes (saveQuotes st) = saveQuotes st"
  by (simp add: saveQuotes_def setItem_def)

lemma quotes_mergeQuotes:
  "quotes (mergeQuotes serverQuotes False st) =
     quotes st @ filter (\<lambda>q. quoteKey q \<notin> quoteKey ` set (quotes st)) serverQuotes"
  by (simp add: mergeQuotes_def Let_def quotes_saveQuotes pushAbsent_filter)

lemma quotes_mergeQuotes_replace: "quotes (mergeQuotes serverQuotes True st) = serverQuotes"
  by (simp add: mergeQuotes_def quotes_saveQuotes)

lemma quotes_importOnload_merge:
  "filter isValidQuote xs \<noteq> [] \<Longrightarrow>
   quotes (snd (importOnload (JsonText (JArr xs)) False st)) =
     quotes st @ filter (\<lambda>q. quoteKey q \<notin> quoteKey ` set (quotes st))
                   (map toQuote (filter isValidQuote xs))"
  by (simp add: importOnload_def importOnload_try_def Let_def quotes_saveQuotes pushAbsent_filter)

lemma quoteKey_eq_if_pair_eq: "quotePair p = quotePair q \<Longrightarrow> quoteKey p = quoteKey q"
  by (simp add: quotePair_def quoteKey_def)

text \<open>
  When the input has no two elements with the same pair either, merging keeps the pairs
  of the collection distinct.
\<close>

lemma distinct_pairs_append_filter:
  assumes "distinct (map quotePair qs)" and "distinct (map quotePair new)"
  shows "distinct (map quotePair (qs @ filter (\<lambda>q. quoteKey q \<notin> quoteKey ` set qs) new))"
proof -
  have "distinct (map quotePair (filter (\<lambda>q. quoteKey q \<notin> quoteKey ` set qs) new))"
    using assms(2) by (rule distinct_map_filter)
  moreover have "quotePair p \<noteq> quotePair q"
    if "p \<in> set qs" and "q \<in> set new" and "quoteKey q \<notin> quoteKey ` set qs" for p q
    using that quoteKey_eq_if_pair_eq[of p q] by (metis imageI)
  then have "set (map quotePair qs) \<inter>
      set (map quotePair (filter (\<lambda>q. quoteKey q \<notin> quoteKey ` set qs) new)) = {}"
    by fastforce
  ultimately show ?thesis
    using assms(1) by (simp only: map_append distinct_append)
qed

lemma mergeQuotes_distinct_inputs:
  "distinct (map quotePair (quotes st)) \<Longrightarrow> distinct (map quotePair serverQuotes) \<Longrightarrow>
     distinct (map quotePair (quotes (mergeQuotes serverQuotes False st)))"
  by (simp only: quotes_mergeQuotes distinct_pairs_append_filter)

subsection \<open>White space\<close>

text \<open>
  \<open>trim\<close> leaves nothing exactly when every code unit of the string is white space, and
  otherwise leaves the string from its first to its last code unit that is not.
\<close>

lemma trim_eq_Nil_iff: "trim s = [] \<longleftrightarrow> (\<forall>c \<in> set s. isWhiteSpace c)"
proof -
  have a: "trim s = [] \<longleftrightarrow> dropWhile isWhiteSpace (rev (dropWhile isWhiteSpace s)) = []"
    by (simp add: trim_def)
  have b: "dropWhile isWhiteSpace (rev (dropWhile isWhiteSpace s)) = [] \<longleftrightarrow>
      (\<forall>c \<in> set (dropWhile isWhiteSpace s). isWhiteSpace c)"
    by (simp only: dropWhile_eq_Nil_conv set_rev)
  have c: "(\<forall>c \<in> set (dropWhile isWhiteSpace s). isWhiteSpace c) \<longleftrightarrow>
      dropWhile isWhiteSpace s = []"
  proof
    assume h: "\<forall>c \<in> set (dropWhile isWhiteSpace s). isWhiteSpace c"
    show "dropWhile isWhiteSpace s = []"
    proof (rule ccontr)
      assume n: "dropWhile isWhiteSpace s \<noteq> []"
      then have "\<not> isWhiteSpace (hd (dropWhile isWhiteSpace s))"
        by (rule hd_dropWhile)
      moreover have "hd (dropWhile isWhiteSpace s) \<in> set (dropWhile isWhiteSpace s)"
        using n by (rule hd_in_set)
      ultimately show False using h by blast
    qed
  next
    assume "dropWhile isWhiteSpace s = []"
    then show "\<forall>c \<in> set (dropWhile isWhiteSpace s). isWhiteSpace c"
      by (metis empty_iff list.set(1))
  qed
  have d: "dropWhile isWhiteSpace s = [] \<longleftrightarrow> (\<forall>c \<in> set s. isWhiteSpace c)"
    by (simp only: dropWhile_eq_Nil_conv)
  show ?thesis
    using a b c d by blast
qed

lemma trim_nonempty_iff: "trim s \<noteq> [] \<longleftrightarrow> spec_nonBlank s"
  by (simp add: trim_eq_Nil_iff spec_nonBlank_def)

lemma trim_core:
  assumes "\<forall>c \<in> set l. isWhiteSpace c" and "\<forall>c \<in> set r. isWhiteSpace c"
    and "\<not> isWhiteSpace a" and "\<not> isWhiteSpace b"
  shows "trim (l @ [a] @ m @ [b] @ r) = [a] @ m @ [b]"
proof -
  have 1: "dropWhile isWhiteSpace (l @ [a] @ m @ [b] @ r) = [a] @ m @ [b] @ r"
    using assms(1,3) by (simp add: dropWhile_append3)
  have 2: "rev ([a] @ m @ [b] @ r) = rev r @ [b] @ rev m @ [a]"
    by simp
  have 3: "dropWhile isWhiteSpace (rev r @ [b] @ rev m @ [a]) = [b] @ rev m @ [a]"
    using assms(2,4) by (simp add: dropWhile_append3)
  show ?thesis
    unfolding trim_def 1 2 3 by simp
qed

lemma trim_examples:
  "trim (js '' a b '') = js ''a b''"
  "trim [0xA0, 0x61, 0x2003, 0xFEFF] = [0x61]"
  "trim [0x9, 0xA, 0xB, 0xC, 0xD, 0x20, 0xA0, 0x1680, 0x2000, 0x200A, 0x2028, 0x2029, 0x202F,
         0x205F, 0x3000, 0xFEFF] = []"
  "trim [0x200B] = [0x200B]"
  "trim [0x85] = [0x85]"
  by (simp_all add: trim_def js_def isWhiteSpace_def)

text \<open>
  Claim C3 says that a merge (the sync merge or the import merge) into a collection
  with pairwise distinct (text, category) pairs leaves no two elements with the same
  pair, whatever the input list. Both loops test each input element against the key
  set computed before the loop and never add the pushed element's key to it, so an
  input that holds the same new quote twice is pushed twice. The theorem evaluates
  both merges on the collection [x/y] and the input [a/b, a/b]: the collection has
  distinct pairs before, and holds a/b twice after.
\<close>

theorem merge_pushes_input_duplicates:
  "distinct (map quotePair [mkQuote ''x'' ''y'']) \<and>
   quotes (mergeQuotes [mkQuote ''a'' ''b'', mkQuote ''a'' ''b''] False
      \<lparr>quotes = [mkQuote ''x'' ''y''], pendingConflicts = None, localStorage = Map.empty,
       quotaExceeded = False, syncStatus = ([], []), posted = []\<rparr>) =
     [mkQuote ''x'' ''y'', mkQuote ''a'' ''b'', mkQuote ''a'' ''b''] \<and>
   importOnload
      (JsonText (JArr [JObj [(js ''text'', JStr (js ''a'')), (js ''category'', JStr (js ''b''))],
                       JObj [(js ''text'', JStr (js ''a'')), (js ''category'', JStr (js ''b''))]]))
      False
      \<lparr>quotes = [mkQuote ''x'' ''y''], pendingConflicts = None, localStorage = Map.empty,
       quotaExceeded = False, syncStatus = ([], []), posted = []\<rparr> =
     (None, saveQuotes
        \<lparr>quotes = [mkQuote ''x'' ''y'', mkQuote ''a'' ''b'', mkQuote ''a'' ''b''],
         pendingConflicts = None, localStorage = Map.empty,
         quotaExceeded = False, syncStatus = ([], []), posted = []\<rparr>) \<and>
   \<not> distinct (map quotePair [mkQuote ''x'' ''y'', mkQuote ''a'' ''b'', mkQuote ''a'' ''b''])"
proof -
  have v: "isValidQuote (JObj [(js ''text'', JStr (js ''a'')), (js ''category'', JStr (js ''b''))])"
    by (simp add: isValidQuote_def trim_def js_def isWhiteSpace_def)
  have t: "toQuote (JObj [(js ''text'', JStr (js ''a'')), (js ''category'', JStr (js ''b''))]) =
      mkQuote ''a'' ''b''"
    by (simp add: toQuote_def mkQuote_def)
  have k: "quoteKey (mkQuote ''a'' ''b'') \<noteq> quoteKey (mkQuote ''x'' ''y'')"
    by (simp add: quoteKey_mkQuote)
  have "distinct (map quotePair [mkQuote ''x'' ''y''])"
    by simp
  moreover have "quotes (mergeQuotes [mkQuote ''a'' ''b'', mkQuote ''a'' ''b''] False
      \<lparr>quotes = [mkQuote ''x'' ''y''], pendingConflicts = None, localStorage = Map.empty,
       quotaExceeded = False, syncStatus = ([], []), posted = []\<rparr>) =
     [mkQuote ''x'' ''y'', mkQuote ''a'' ''b'', mkQuote ''a'' ''b'']"
    using k by (simp add: quotes_mergeQuotes)
  moreover have "importOnload
      (JsonText (JArr [JObj [(js ''text'', JStr (js ''a'')), (js ''category'', JStr (js ''b''))],
                       JObj [(js ''text'', JStr (js ''a'')), (js ''category'', JStr (js ''b''))]]))
      False
      \<lparr>quotes = [mkQuote ''x'' ''y''], pendingConflicts = None, localStorage = Map.empty,
       quotaExceeded = False, syncStatus = ([], []), posted = []\<rparr> =
     (None, saveQuotes
        \<lparr>quotes = [mkQuote ''x'' ''y'', mkQuote ''a'' ''b'', mkQuote ''a'' ''b''],
         pendingConflicts = None, localStorage = Map.empty,
         quotaExceeded = False, syncStatus = ([], []), posted = []\<rparr>)"
    using v k by (simp add: importOnload_def importOnload_try_def t)
  moreover have
    "\<not> distinct (map quotePair [mkQuote ''x'' ''y'', mkQuote ''a'' ''b'', mkQuote ''a'' ''b''])"
    by simp
  ultimately show ?thesis by blast
qed

text \<open>
  Claim C4: merging a snapshot and then merging the same snapshot again gives the
  state that merging it once gives, for every state and every snapshot (the
  collection, and with it the value persisted under the collection key).
\<close>

theorem mergeQuotes_idempotent:
  "mergeQuotes serverQuotes False (mergeQuotes serverQuotes False st) =
     mergeQuotes serverQuotes False st"
proof -
  let ?st1 = "mergeQuotes serverQuotes False st"
  have q: "quotes ?st1 =
      quotes st @ filter (\<lambda>q. quoteKey q \<notin> quoteKey ` set (quotes st)) serverQuotes"
    by (rule quotes_mergeQuotes)
  have "pushAbsent (set (map quoteKey (quotes ?st1))) (quotes ?st1) serverQuotes = quotes ?st1"
    unfolding pushAbsent_filter q by (auto simp: filter_empty_conv)
  then have "mergeQuotes serverQuotes False ?st1 = saveQuotes ?st1"
    by (simp add: mergeQuotes_def[of serverQuotes False ?st1] Let_def)
  also have "\<dots> = ?st1"
    by (simp add: mergeQuotes_def[of serverQuotes False st] saveQuotes_idem)
  finally show ?thesis .
qed

text \<open>
  Claim C10: the merge loops compare the string text + "|" + category, not the pair.
  The quotes q1 = (text "a|b", category "c") and q2 = (text "a", category "b|c") have
  different pairs and the same key; in every collection that holds q1, the sync merge
  and the import merge of the input [q2] treat q2 as a duplicate and leave the
  collection as it was.
\<close>

theorem merge_key_collision:
  "quotePair (mkQuote ''a|b'' ''c'') \<noteq> quotePair (mkQuote ''a'' ''b|c'') \<and>
   quoteKey (mkQuote ''a|b'' ''c'') = quoteKey (mkQuote ''a'' ''b|c'') \<and>
   quotes (mergeQuotes [mkQuote ''a'' ''b|c''] False
             (st\<lparr>quotes := before @ [mkQuote ''a|b'' ''c''] @ after\<rparr>)) =
     before @ [mkQuote ''a|b'' ''c''] @ after \<and>
   quotes (snd (importOnload
                  (JsonText (JArr [JObj [(js ''text'', JStr (js ''a'')),
                                         (js ''category'', JStr (js ''b|c''))]]))
                  False (st\<lparr>quotes := before @ [mkQuote ''a|b'' ''c''] @ after\<rparr>))) =
     before @ [mkQuote ''a|b'' ''c''] @ after"
proof -
  have k: "quoteKey (mkQuote ''a|b'' ''c'') = quoteKey (mkQuote ''a'' ''b|c'')"
    by (simp add: quoteKey_mkQuote)
  have p: "quotePair (mkQuote ''a|b'' ''c'') \<noteq> quotePair (mkQuote ''a'' ''b|c'')"
    by (simp add: quotePair_mkQuote)
  have v: "isValidQuote (JObj [(js ''text'', JStr (js ''a'')), (js ''category'', JStr (js ''b|c''))])"
    by (simp add: isValidQuote_def trim_def js_def isWhiteSpace_def)
  have t: "toQuote (JObj [(js ''text'', JStr (js ''a'')), (js ''category'', JStr (js ''b|c''))]) =
      mkQuote ''a'' ''b|c''"
    by (simp add: toQuote_def mkQuote_def)
  have m: "quotes (mergeQuotes [mkQuote ''a'' ''b|c''] False
             (st\<lparr>quotes := before @ [mkQuote ''a|b'' ''c''] @ after\<rparr>)) =
     before @ [mkQuote ''a|b'' ''c''] @ after"
    unfolding quotes_mergeQuotes using k by simp
  have i: "quotes (snd (importOnload
                  (JsonText (JArr [JObj [(js ''text'', JStr (js ''a'')),
                                         (js ''category'', JStr (js ''b|c''))]]))
                  False (st\<lparr>quotes := before @ [mkQuote ''a|b'' ''c''] @ after\<rparr>))) =
     before @ [mkQuote ''a|b'' ''c''] @ after"
    using v k by (subst quotes_importOnload_merge) (simp_all add: t)
  show ?thesis using k p m i by blast
qed

subsection \<open>The remote client\<close>

lemma js_rem_2_even: "js_rem n 2 = 0 \<longleftrightarrow> even n"
proof -
  have m: "\<bar>n\<bar> mod 2 = 0 \<longleftrightarrow> even n" by presburger
  show ?thesis
  proof (cases "n = 0")
    case True
    then show ?thesis by (simp add: js_rem_def)
  next
    case False
    then have "sgn n \<noteq> 0" by (simp add: sgn_if)
    then show ?thesis using m by (simp add: js_rem_def)
  qed
qed

lemma category_toServerQuote:
  "category (toServerQuote now p) = (if even (userId p) then js ''Server'' else js ''Remote'')"
  by (simp add: category_def properties_toServerQuote js_rem_2_even)

lemma quoteKey_toServerQuote:
  "quoteKey (toServerQuote now p) =
     title p @ js ''|'' @ (if even (userId p) then js ''Server'' else js ''Remote'')"
  by (simp add: quoteKey_def text_toServerQuote category_toServerQuote)

text \<open>
  Claim C8: for every array the remote answers with, \<^verbatim>\<open>fetchQuotesFromServer\<close> returns
  the quotes of its first ten records and no more; the quote at each position has the
  record's title as text, the category "Server" when the record's userId is even and
  "Remote" otherwise, the record's id as serverId, and the time of its mapping as
  serverTimestamp.
\<close>

theorem fetchQuotesFromServer_maps_first_ten:
  "\<exists>serverQuotes.
     fst (fetchQuotesFromServer (Response True status (Some serverData)) clock st)
       = Some serverQuotes \<and>
     length serverQuotes = min 10 (length serverData) \<and>
     length serverQuotes \<le> 10 \<and>
     (\<forall>i < length serverQuotes.
        text (serverQuotes ! i) = title (serverData ! i) \<and>
        category (serverQuotes ! i) =
          (if even (userId (serverData ! i)) then js ''Server'' else js ''Remote'') \<and>
        serverId (serverQuotes ! i) = Some (postId (serverData ! i)) \<and>
        serverTimestamp (serverQuotes ! i) = Some (clock i))"
proof -
  let ?sq = "map (\<lambda>(i, p). toServerQuote (clock i) p) (enumerate 0 (take 10 serverData))"
  have f: "fst (fetchQuotesFromServer (Response True status (Some serverData)) clock st) = Some ?sq"
    by (simp add: fetchQuotesFromServer_def Let_def)
  have l: "length ?sq = min 10 (length serverData)"
    by (simp add: min.commute)
  have e: "?sq ! i = toServerQuote (clock i) (serverData ! i)" if "i < length ?sq" for i
    using that by (simp add: nth_enumerate_eq)
  have "text (?sq ! i) = title (serverData ! i) \<and>
        category (?sq ! i) =
          (if even (userId (serverData ! i)) then js ''Server'' else js ''Remote'') \<and>
        serverId (?sq ! i) = Some (postId (serverData ! i)) \<and>
        serverTimestamp (?sq ! i) = Some (clock i)" if "i < length ?sq" for i
    unfolding e[OF that] category_toServerQuote
    by (simp add: text_toServerQuote serverId_toServerQuote serverTimestamp_toServerQuote)
  with f l show ?thesis by (intro exI[of _ ?sq]) simp
qed

text \<open>
  An answer of twelve records: ten quotes come back, and the last of them is the tenth
  record's.
\<close>

theorem fetchQuotesFromServer_maps_first_ten_witness:
  "\<exists>serverQuotes.
     fst (fetchQuotesFromServer
            (Response True 200 (Some (scenarioPosts @ scenarioPosts))) (\<lambda>i. 2000 + int i)
            scenarioState) = Some serverQuotes \<and>
     length serverQuotes = 10 \<and>
     text (serverQuotes ! 9) = js ''t4'' \<and>
     category (serverQuotes ! 9) = js ''Server'' \<and>
     serverId (serverQuotes ! 9) = Some 4 \<and>
     serverTimestamp (serverQuotes ! 9) = Some 2009"
proof -
  from fetchQuotesFromServer_maps_first_ten
    [of 200 "scenarioPosts @ scenarioPosts" "\<lambda>i. 2000 + int i" scenarioState]
  obtain serverQuotes where
    f: "fst (fetchQuotesFromServer
            (Response True 200 (Some (scenarioPosts @ scenarioPosts))) (\<lambda>i. 2000 + int i)
            scenarioState) = Some serverQuotes"
    and l: "length serverQuotes = min 10 (length (scenarioPosts @ scenarioPosts))"
    and a: "\<forall>i < length serverQuotes.
        text (serverQuotes ! i) = title ((scenarioPosts @ scenarioPosts) ! i) \<and>
        category (serverQuotes ! i) =
          (if even (userId ((scenarioPosts @ scenarioPosts) ! i))
           then js ''Server'' else js ''Remote'') \<and>
        serverId (serverQuotes ! i) = Some (postId ((scenarioPosts @ scenarioPosts) ! i)) \<and>
        serverTimestamp (serverQuotes ! i) = Some (2000 + int i)"
    by blast
  from l have l10: "length serverQuotes = 10"
    by (simp add: scenarioPosts_def)
  then have "9 < length serverQuotes" by simp
  with a have
    "text (serverQuotes ! 9) = title ((scenarioPosts @ scenarioPosts) ! 9) \<and>
     category (serverQuotes ! 9) =
       (if even (userId ((scenarioPosts @ scenarioPosts) ! 9))
        then js ''Server'' else js ''Remote'') \<and>
     serverId (serverQuotes ! 9) = Some (postId ((scenarioPosts @ scenarioPosts) ! 9)) \<and>
     serverTimestamp (serverQuotes ! 9) = Some (2000 + int 9)"
    by blast
  moreover have
    "(scenarioPosts @ scenarioPosts) ! 9 = \<lparr>postId = 4, userId = 2, title = js ''t4''\<rparr>"
    by (simp add: scenarioPosts_def)
  ultimately show ?thesis
    using f l10 by (intro exI[of _ serverQuotes]) simp
qed

subsection \<open>The sync cycle\<close>

lemma fetch_failed:
  "resp = NetworkFailure \<or> resp = Response False status body \<or> resp = Response ok status None \<Longrightarrow>
   fetchQuotesFromServer resp clock st =
     (None, updateSyncStatus ''Failed to fetch from server'' ''error'' st)"
  by (auto simp: fetchQuotesFromServer_def Let_def updateSyncStatus_def)

text \<open>
  Claim C6: when the fetch fails (the request is rejected, or the response is not ok),
  \<^verbatim>\<open>fetchQuotesFromServer\<close> returns \<^verbatim>\<open>null\<close>, and the sync cycle returns with the status
  "Failed to fetch from server" of type "error" and with nothing else changed: the
  collection, the whole persistent store (the stored remote snapshot and the last-sync
  instant among its keys), the pending conflict and the list of POST requests are
  what they were, so no merge has taken place.
\<close>

theorem syncWithServer_fetch_failure:
  assumes "resp = NetworkFailure \<or> (\<exists>status body. resp = Response False status body)"
  shows "fst (fetchQuotesFromServer resp clock st) = None \<and>
         (\<exists>st'. syncWithServer resp postResp clock nowIso st = Inr st' \<and>
            syncStatus st' = (''Failed to fetch from server'', ''error'') \<and>
            quotes st' = quotes st \<and>
            localStorage st' = localStorage st \<and>
            getItem (localStorage st') SERVER_QUOTES_KEY =
              getItem (localStorage st) SERVER_QUOTES_KEY \<and>
            getItem (localStorage st') LAST_SYNC_TIME_KEY =
              getItem (localStorage st) LAST_SYNC_TIME_KEY \<and>
            pendingConflicts st' = pendingConflicts st \<and>
            posted st' = posted st)"
proof -
  have f: "fetchQuotesFromServer resp clock s =
      (None, updateSyncStatus ''Failed to fetch from server'' ''error'' s)" for s
    using assms fetch_failed[of resp] by blast
  have "syncWithServer resp postResp clock nowIso st =
      Inr (updateSyncStatus ''Failed to fetch from server'' ''error''
             (updateSyncStatus ''Syncing...'' ''info'' st))"
    by (simp add: syncWithServer_def Let_def f)
  then show ?thesis
    by (simp add: f updateSyncStatus_def)
qed

text \<open>
  The scenario state with a rejected request, and with a response of status 500.
\<close>

theorem syncWithServer_fetch_failure_witness:
  "(\<exists>st'. syncWithServer NetworkFailure (Response True 201 (Some JNull)) (\<lambda>i. 2000)
            (js ''2024-01-02T00:00:00.000Z'') scenarioState = Inr st' \<and>
          syncStatus st' = (''Failed to fetch from server'', ''error'') \<and>
          quotes st' = scenarioLocal \<and>
          getItem (localStorage st') SERVER_QUOTES_KEY =
            Some (JSON_stringify (quotesJson scenarioBaseline)) \<and>
          getItem (localStorage st') LAST_SYNC_TIME_KEY =
            Some (NotJson (js ''2024-01-01T00:00:00.000Z'')) \<and>
          pendingConflicts st' = None \<and> posted st' = []) \<and>
   (\<exists>st'. syncWithServer (Response False 500 (Some scenarioPosts)) (Response True 201 (Some JNull))
            (\<lambda>i. 2000) (js ''2024-01-02T00:00:00.000Z'') scenarioState = Inr st' \<and>
          syncStatus st' = (''Failed to fetch from server'', ''error'') \<and>
          quotes st' = scenarioLocal \<and>
          getItem (localStorage st') SERVER_QUOTES_KEY =
            Some (JSON_stringify (quotesJson scenarioBaseline)) \<and>
          getItem (localStorage st') LAST_SYNC_TIME_KEY =
            Some (NotJson (js ''2024-01-01T00:00:00.000Z'')) \<and>
          pendingConflicts st' = None \<and> posted st' = [])"
proof -
  have s: "quotes scenarioState = scenarioLocal" "pendingConflicts scenarioState = None"
    "posted scenarioState = []"
    "getItem (localStorage scenarioState) SERVER_QUOTES_KEY =
       Some (JSON_stringify (quotesJson scenarioBaseline))"
    "getItem (localStorage scenarioState) LAST_SYNC_TIME_KEY =
       Some (NotJson (js ''2024-01-01T00:00:00.000Z''))"
    by (simp_all add: scenarioState_def getItem_def SERVER_QUOTES_KEY_def LAST_SYNC_TIME_KEY_def)
  have a: "(NetworkFailure :: post list response) = NetworkFailure \<or>
      (\<exists>status body. (NetworkFailure :: post list response) = Response False status body)"
    by simp
  have b: "Response False 500 (Some scenarioPosts) = NetworkFailure \<or>
      (\<exists>status body. Response False 500 (Some scenarioPosts) = Response False status body)"
    by simp
  show ?thesis
    using syncWithServer_fetch_failure[OF a, of "\<lambda>i. 2000" scenarioState
        "Response True 201 (Some JNull)" "js ''2024-01-02T00:00:00.000Z''"]
      syncWithServer_fetch_failure[OF b, of "\<lambda>i. 2000" scenarioState
        "Response True 201 (Some JNull)" "js ''2024-01-02T00:00:00.000Z''"]
    unfolding s by blast
qed

lemma mergeQuotes_frame:
  "pendingConflicts (mergeQuotes serverQuotes replaceAll st) = pendingConflicts st"
  "syncStatus (mergeQuotes serverQuotes replaceAll st) = syncStatus st"
  "posted (mergeQuotes serverQuotes replaceAll st) = posted st"
  by (simp_all add: mergeQuotes_def saveQuotes_def Let_def)

lemma snd_postQuotesToServer:
  "snd (postQuotesToServer quotesToPost resp st) =
     st\<lparr>syncStatus := (''Posting to server...'', ''info''), posted := posted st @ [quotesToPost]\<rparr>"
  by (simp add: postQuotesToServer_def updateSyncStatus_def Let_def
      split: response.splits option.splits)

text \<open>
  Called on a store that still holds the baseline, \<^verbatim>\<open>detectConflicts\<close> does what the
  specification says: a conflict, with the three counts, exactly when the local length
  differs from the baseline's and the new snapshot serialises differently.
\<close>

lemma detectConflicts_with_baseline:
  assumes "getItem ls LAST_SYNC_TIME_KEY = Some lastSyncTime" and "truthy_stored lastSyncTime"
    and "getItem ls SERVER_QUOTES_KEY = Some (JSON_stringify (quotesJson r0))"
  shows "detectConflicts localQuotes r1 ls =
     Inr (if length localQuotes \<noteq> length r0 \<and>
             JSON_stringify (quotesJson r1) \<noteq> JSON_stringify (quotesJson r0)
          then Some \<lparr>localCount = length localQuotes, serverCount = length r1,
                     prevServerCount = Some (JNum (int (length r0))),
                     c_localQuotes = localQuotes, c_serverQuotes = r1\<rparr>
          else None)"
  using assms
  by (simp add: detectConflicts_def JSON_stringify_def quotesJson_def Let_def)

text \<open>
  \<^verbatim>\<open>syncWithServer\<close> writes the new snapshot under the baseline's key before it calls
  \<^verbatim>\<open>detectConflicts\<close>, which therefore compares the new snapshot with itself.
\<close>

lemma detectConflicts_after_overwrite:
  "detectConflicts localQuotes serverQuotes
     (setItem ls SERVER_QUOTES_KEY (JSON_stringify (quotesJson serverQuotes))) = Inr None"
  by (simp add: detectConflicts_def getItem_def setItem_def JSON_stringify_def quotesJson_def
      SERVER_QUOTES_KEY_def LAST_SYNC_TIME_KEY_def Let_def split: option.splits)

text \<open>So a cycle whose fetch succeeds merges, whatever the baseline and the collection.\<close>

lemma syncWithServer_always_merges:
  "\<exists>st'. syncWithServer (Response True status (Some serverData)) postResp clock nowIso st = Inr st'
     \<and> pendingConflicts st' = pendingConflicts st
     \<and> syncStatus st' = (''Synced successfully'', ''success'')
     \<and> quotes st' =
         quotes (mergeQuotes (map (\<lambda>(i, p). toServerQuote (clock i) p)
                                (enumerate 0 (take 10 serverData))) False st)"
  by (simp add: syncWithServer_def fetchQuotesFromServer_def Let_def detectConflicts_after_overwrite
      updateSyncStatus_def snd_postQuotesToServer quotes_mergeQuotes mergeQuotes_frame
      split_beta)

text \<open>
  Claim C1 says that a cycle run with a baseline reports a conflict, and does not
  merge, when the local length differs from the baseline's length and the fetched
  snapshot serialises differently from the baseline. The theorem runs the scenario of
  the specification: the baseline has five quotes and is stored with a last-sync
  instant, the collection has seven, the fetch returns six that serialise differently.
  \<^verbatim>\<open>detectConflicts\<close>, asked on the store as it stands, reports the conflict with the
  counts 7, 6 and 5; the cycle itself ends with no conflict pending, the status
  "Synced successfully", and the sixth remote quote merged into the collection.
\<close>

theorem syncWithServer_overwrites_baseline_first:
  "length scenarioBaseline = 5 \<and> length (quotes scenarioState) = 7 \<and>
   length scenarioRemote = 6 \<and>
   getItem (localStorage scenarioState) SERVER_QUOTES_KEY =
     Some (JSON_stringify (quotesJson scenarioBaseline)) \<and>
   getItem (localStorage scenarioState) LAST_SYNC_TIME_KEY =
     Some (NotJson (js ''2024-01-01T00:00:00.000Z'')) \<and>
   JSON_stringify (quotesJson scenarioRemote) \<noteq> JSON_stringify (quotesJson scenarioBaseline) \<and>
   fst (fetchQuotesFromServer (Response True 200 (Some scenarioPosts)) (\<lambda>i. 2000) scenarioState)
     = Some scenarioRemote \<and>
   detectConflicts (quotes scenarioState) scenarioRemote (localStorage scenarioState) =
     Inr (Some scenarioConflict) \<and>
   (\<exists>st'. syncWithServer (Response True 200 (Some scenarioPosts)) (Response True 201 (Some JNull))
            (\<lambda>i. 2000) (js ''2024-01-02T00:00:00.000Z'') scenarioState = Inr st' \<and>
          pendingConflicts st' = None \<and>
          syncStatus st' = (''Synced successfully'', ''success'') \<and>
          quotes st' =
            scenarioLocal @
              [toServerQuote 2000 \<lparr>postId = 6, userId = 3, title = js ''t6''\<rparr>])"
proof -
  have l: "length scenarioBaseline = 5" "length (quotes scenarioState) = 7"
    "length scenarioRemote = 6"
    by (simp_all add: scenarioBaseline_def scenarioState_def scenarioLocal_def scenarioRemote_def
        scenarioPosts_def)
  have g: "getItem (localStorage scenarioState) SERVER_QUOTES_KEY =
     Some (JSON_stringify (quotesJson scenarioBaseline))"
    by (simp add: scenarioState_def getItem_def SERVER_QUOTES_KEY_def LAST_SYNC_TIME_KEY_def)
  have t: "getItem (localStorage scenarioState) LAST_SYNC_TIME_KEY =
     Some (NotJson (js ''2024-01-01T00:00:00.000Z''))"
    by (simp add: scenarioState_def getItem_def SERVER_QUOTES_KEY_def LAST_SYNC_TIME_KEY_def)
  have "length (map quoteJson scenarioRemote) \<noteq> length (map quoteJson scenarioBaseline)"
    using l by simp
  then have "quotesJson scenarioRemote \<noteq> quotesJson scenarioBaseline"
    unfolding quotesJson_def by (metis json.inject(4))
  then have n: "JSON_stringify (quotesJson scenarioRemote) \<noteq>
      JSON_stringify (quotesJson scenarioBaseline)"
    by (simp add: JSON_stringify_def)
  have f: "fst (fetchQuotesFromServer (Response True 200 (Some scenarioPosts)) (\<lambda>i. 2000)
      scenarioState) = Some scenarioRemote"
    by (simp add: fetchQuotesFromServer_def Let_def scenarioRemote_def scenarioPosts_def
        enumerate_eq_zip upt_rec)
  have d: "detectConflicts (quotes scenarioState) scenarioRemote (localStorage scenarioState) =
     Inr (Some scenarioConflict)"
    using l n
    by (simp add: detectConflicts_with_baseline[OF t _ g] scenarioConflict_def)
       (simp add: scenarioState_def)
  obtain st' where s: "syncWithServer (Response True 200 (Some scenarioPosts))
        (Response True 201 (Some JNull)) (\<lambda>i. 2000) (js ''2024-01-02T00:00:00.000Z'')
        scenarioState = Inr st'"
      "pendingConflicts st' = pendingConflicts scenarioState"
      "syncStatus st' = (''Synced successfully'', ''success'')"
      "quotes st' = quotes (mergeQuotes (map (\<lambda>(i, p). toServerQuote ((\<lambda>i. 2000) i) p)
                                (enumerate 0 (take 10 scenarioPosts))) False scenarioState)"
    using syncWithServer_always_merges by blast
  have q: "quotes (mergeQuotes (map (\<lambda>(i, p). toServerQuote 2000 p)
                                (enumerate 0 (take 10 scenarioPosts))) False scenarioState) =
      scenarioLocal @ [toServerQuote 2000 \<lparr>postId = 6, userId = 3, title = js ''t6''\<rparr>]"
    by (simp add: quotes_mergeQuotes scenarioState_def scenarioLocal_def scenarioBaseline_def
        scenarioPosts_def enumerate_eq_zip upt_rec quoteKey_toServerQuote quoteKey_mkQuote
        js_def)
  have p: "pendingConflicts scenarioState = None"
    by (simp add: scenarioState_def)
  show ?thesis
    using l g t n f d s p q by simp
qed

text \<open>What the evaluation above says of the cycle alone.\<close>

theorem syncWithServer_overwrites_baseline_first_witness:
  "\<exists>st'. syncWithServer (Response True 200 (Some scenarioPosts)) (Response True 201 (Some JNull))
            (\<lambda>i. 2000) (js ''2024-01-02T00:00:00.000Z'') scenarioState = Inr st' \<and>
          pendingConflicts st' = None \<and> length (quotes st') = 8"
proof -
  from syncWithServer_overwrites_baseline_first
  obtain st' where
    "syncWithServer (Response True 200 (Some scenarioPosts)) (Response True 201 (Some JNull))
            (\<lambda>i. 2000) (js ''2024-01-02T00:00:00.000Z'') scenarioState = Inr st'"
    "pendingConflicts st' = None"
    "quotes st' = scenarioLocal @ [toServerQuote 2000 \<lparr>postId = 6, userId = 3, title = js ''t6''\<rparr>]"
    by blast
  moreover have "length scenarioLocal = 7"
    by (simp add: scenarioLocal_def scenarioBaseline_def scenarioPosts_def)
  ultimately show ?thesis by simp
qed

subsection \<open>Resolving a conflict\<close>

text \<open>
  Claim C2: with a conflict pending, \<^verbatim>\<open>resolveConflict(true)\<close> makes the pending remote
  snapshot the collection; \<^verbatim>\<open>resolveConflict(false)\<close> leaves the collection and its
  persisted copy as they were and issues no POST request; either way the stored
  remote snapshot becomes the pending one, the last-sync instant becomes the current
  time, and no conflict is pending afterwards.
\<close>

theorem resolveConflict_effect:
  assumes "pendingConflicts st = Some pending"
  shows "quotes (resolveConflict True nowIso st) = c_serverQuotes pending \<and>
         quotes (resolveConflict False nowIso st) = quotes st \<and>
         posted (resolveConflict False nowIso st) = posted st \<and>
         getItem (localStorage (resolveConflict False nowIso st)) QUOTES_STORAGE_KEY =
           getItem (localStorage st) QUOTES_STORAGE_KEY \<and>
         (\<forall>useServerVersion.
            getItem (localStorage (resolveConflict useServerVersion nowIso st)) SERVER_QUOTES_KEY =
              Some (JSON_stringify (quotesJson (c_serverQuotes pending))) \<and>
            getItem (localStorage (resolveConflict useServerVersion nowIso st)) LAST_SYNC_TIME_KEY =
              Some (NotJson nowIso) \<and>
            pendingConflicts (resolveConflict useServerVersion nowIso st) = None)"
  using assms
  by (simp add: resolveConflict_def Let_def updateSyncStatus_def mergeQuotes_def saveQuotes_def
      setItem_def getItem_def QUOTES_STORAGE_KEY_def SERVER_QUOTES_KEY_def LAST_SYNC_TIME_KEY_def)

text \<open>The conflict of the scenario, pending on the scenario state.\<close>

theorem resolveConflict_effect_witness:
  "quotes (resolveConflict True (js ''2024-01-02T00:00:00.000Z'')
             (scenarioState\<lparr>pendingConflicts := Some scenarioConflict\<rparr>)) = scenarioRemote \<and>
   quotes (resolveConflict False (js ''2024-01-02T00:00:00.000Z'')
             (scenarioState\<lparr>pendingConflicts := Some scenarioConflict\<rparr>)) = scenarioLocal \<and>
   posted (resolveConflict False (js ''2024-01-02T00:00:00.000Z'')
             (scenarioState\<lparr>pendingConflicts := Some scenarioConflict\<rparr>)) = [] \<and>
   getItem (localStorage (resolveConflict False (js ''2024-01-02T00:00:00.000Z'')
             (scenarioState\<lparr>pendingConflicts := Some scenarioConflict\<rparr>))) SERVER_QUOTES_KEY =
     Some (JSON_stringify (quotesJson scenarioRemote)) \<and>
   getItem (localStorage (resolveConflict True (js ''2024-01-02T00:00:00.000Z'')
             (scenarioState\<lparr>pendingConflicts := Some scenarioConflict\<rparr>))) LAST_SYNC_TIME_KEY =
     Some (NotJson (js ''2024-01-02T00:00:00.000Z'')) \<and>
   pendingConflicts (resolveConflict True (js ''2024-01-02T00:00:00.000Z'')
             (scenarioState\<lparr>pendingConflicts := Some scenarioConflict\<rparr>)) = None \<and>
   pendingConflicts (resolveConflict False (js ''2024-01-02T00:00:00.000Z'')
             (scenarioState\<lparr>pendingConflicts := Some scenarioConflict\<rparr>)) = None"
proof -
  have p: "pendingConflicts (scenarioState\<lparr>pendingConflicts := Some scenarioConflict\<rparr>) =
      Some scenarioConflict"
    by simp
  have c: "c_serverQuotes scenarioConflict = scenarioRemote"
    by (simp add: scenarioConflict_def)
  have s: "quotes (scenarioState\<lparr>pendingConflicts := Some scenarioConflict\<rparr>) = scenarioLocal"
    "posted (scenarioState\<lparr>pendingConflicts := Some scenarioConflict\<rparr>) = []"
    by (simp_all add: scenarioState_def)
  show ?thesis
    using resolveConflict_effect[OF p, of "js ''2024-01-02T00:00:00.000Z''"]
    unfolding c s by blast
qed

subsection \<open>Import\<close>

lemma spec_nonBlankStrings_eq:
  "spec_nonBlankStrings x y =
     (typeof x = ''string'' \<and> typeof y = ''string'' \<and>
      trim (stringOf x) \<noteq> [] \<and> trim (stringOf y) \<noteq> [])"
  by (induction x y rule: spec_nonBlankStrings.induct) (auto simp: trim_nonempty_iff)

text \<open>The filter of the code keeps what the specification says it keeps.\<close>

lemma isValidQuote_eq_spec: "isValidQuote v = spec_validElement v"
  by (cases v) (auto simp: isValidQuote_def spec_nonBlankStrings_eq)

lemma spec_validElement_isQuoteObject: "spec_validElement v \<Longrightarrow> isQuoteObject v"
  by (cases v) (auto simp: isQuoteObject_def spec_nonBlankStrings_eq)

text \<open>The validated elements become elements of the collection as they are.\<close>

lemma quoteJson_toQuote_valid:
  "map (quoteJson \<circ> toQuote) (filter spec_validElement xs) = filter spec_validElement xs"
  by (induction xs) (simp_all add: quoteJson_toQuote spec_validElement_isQuoteObject)

text \<open>
  Claim C7: for every parsed value the importer is given. If the value is not an array,
  or none of its elements is an object with string text and category that are
  non-empty after trimming, the import fails (the handler reports the error) and the
  state, the collection in it, is unchanged. Otherwise the import succeeds and exactly
  those elements are kept, whole and in their order: they are the new collection when
  the user chooses to replace, and the ones whose key is not yet in the collection are
  appended when the user chooses to merge.
\<close>

theorem importOnload_validates:
  "((\<forall>elements. v \<noteq> JArr elements) \<longrightarrow>
      importOnload (JsonText v) shouldReplace st =
        (Some (Error ''Invalid format: Expected an array of quotes''), st)) \<and>
   (\<forall>elements. v = JArr elements \<longrightarrow>
      (filter spec_validElement elements = [] \<longrightarrow>
         importOnload (JsonText v) shouldReplace st =
           (Some (Error ''No valid quotes found in the file''), st)) \<and>
      (filter spec_validElement elements \<noteq> [] \<longrightarrow>
         fst (importOnload (JsonText v) shouldReplace st) = None \<and>
         quotes (snd (importOnload (JsonText v) True st)) =
           map toQuote (filter spec_validElement elements) \<and>
         map quoteJson (quotes (snd (importOnload (JsonText v) True st))) =
           filter spec_validElement elements \<and>
         quotes (snd (importOnload (JsonText v) False st)) =
           quotes st @ filter (\<lambda>q. quoteKey q \<notin> quoteKey ` set (quotes st))
                         (map toQuote (filter spec_validElement elements))))"
proof -
  have f: "filter isValidQuote = filter spec_validElement"
    by (simp add: isValidQuote_eq_spec[abs_def])
  show ?thesis
    by (cases v)
       (simp_all add: importOnload_def importOnload_try_def Let_def f quotes_saveQuotes
          pushAbsent_filter quoteJson_toQuote_valid)
qed

text \<open>
  The input of the specification's example, an array of the quote a/b, an object with
  an empty text and a string: the import succeeds and a/b alone is kept. An array of
  an object whose text is a no-break space, an object whose category is a space, a tab,
  an em space and a byte order mark, and an object with a third property and spaces
  around its text and category: the last one alone is kept, as it is. An object in
  place of the array, and an array whose only element has a text of white space, fail
  and change nothing.
\<close>

theorem importOnload_validates_witness:
  "fst (importOnload
          (JsonText (JArr [JObj [(js ''text'', JStr (js ''a'')), (js ''category'', JStr (js ''b''))],
                           JObj [(js ''text'', JStr []), (js ''category'', JStr (js ''c''))],
                           JStr (js ''not-an-object'')]))
          True scenarioState) = None \<and>
   quotes (snd (importOnload
          (JsonText (JArr [JObj [(js ''text'', JStr (js ''a'')), (js ''category'', JStr (js ''b''))],
                           JObj [(js ''text'', JStr []), (js ''category'', JStr (js ''c''))],
                           JStr (js ''not-an-object'')]))
          True scenarioState)) = [mkQuote ''a'' ''b''] \<and>
   quotes (snd (importOnload
          (JsonText (JArr [JObj [(js ''text'', JStr (js ''a'')), (js ''category'', JStr (js ''b''))],
                           JObj [(js ''text'', JStr []), (js ''category'', JStr (js ''c''))],
                           JStr (js ''not-an-object'')]))
          False scenarioState)) = scenarioLocal @ [mkQuote ''a'' ''b''] \<and>
   map quoteJson (quotes (snd (importOnload
          (JsonText (JArr [JObj [(js ''text'', JStr [0xA0]), (js ''category'', JStr (js ''c''))],
                           JObj [(js ''text'', JStr (js ''a'')),
                                 (js ''category'', JStr [0x20, 0x9, 0x2003, 0xFEFF])],
                           JObj [(js ''id'', JNum 7), (js ''category'', JStr (js '' c '')),
                                 (js ''text'', JStr (js '' q ''))]]))
          True scenarioState))) =
     [JObj [(js ''id'', JNum 7), (js ''category'', JStr (js '' c '')),
            (js ''text'', JStr (js '' q ''))]] \<and>
   importOnload (JsonText (JObj [(js ''text'', JStr (js ''a'')), (js ''category'', JStr (js ''b''))]))
      True scenarioState =
     (Some (Error ''Invalid format: Expected an array of quotes''), scenarioState) \<and>
   importOnload
      (JsonText (JArr [JObj [(js ''text'', JStr [0x20, 0xA0, 0x3000]),
                             (js ''category'', JStr (js ''c''))]]))
      True scenarioState =
     (Some (Error ''No valid quotes found in the file''), scenarioState)"
proof -
  let ?a = "JObj [(js ''text'', JStr (js ''a'')), (js ''category'', JStr (js ''b''))]"
  let ?e = "JObj [(js ''text'', JStr []), (js ''category'', JStr (js ''c''))]"
  let ?xs = "[?a, ?e, JStr (js ''not-an-object'')]"
  let ?n = "JObj [(js ''text'', JStr [0xA0]), (js ''category'', JStr (js ''c''))]"
  let ?w = "JObj [(js ''text'', JStr (js ''a'')),
                  (js ''category'', JStr [0x20, 0x9, 0x2003, 0xFEFF])]"
  let ?k = "JObj [(js ''id'', JNum 7), (js ''category'', JStr (js '' c '')),
                  (js ''text'', JStr (js '' q ''))]"
  let ?ys = "[?n, ?w, ?k]"
  let ?b = "JObj [(js ''text'', JStr [0x20, 0xA0, 0x3000]), (js ''category'', JStr (js ''c''))]"
  have k: "filter spec_validElement ?xs = [?a]"
    by (simp add: spec_nonBlank_def isWhiteSpace_def js_def)
  have ky: "filter spec_validElement ?ys = [?k]"
    by (simp add: spec_nonBlank_def isWhiteSpace_def js_def)
  have kb: "filter spec_validElement [?b] = []"
    by (simp add: spec_nonBlank_def isWhiteSpace_def js_def)
  have t: "toQuote ?a = mkQuote ''a'' ''b''"
    by (simp add: toQuote_def mkQuote_def)
  have n: "quoteKey (mkQuote ''a'' ''b'') \<notin> quoteKey ` set (quotes scenarioState)"
    by (simp add: scenarioState_def scenarioLocal_def scenarioBaseline_def scenarioPosts_def
        quoteKey_toServerQuote quoteKey_mkQuote js_def)
  have q: "quotes scenarioState = scenarioLocal"
    by (simp add: scenarioState_def)
  have 1: "fst (importOnload (JsonText (JArr ?xs)) True scenarioState) = None \<and>
      quotes (snd (importOnload (JsonText (JArr ?xs)) True scenarioState)) = [mkQuote ''a'' ''b''] \<and>
      quotes (snd (importOnload (JsonText (JArr ?xs)) False scenarioState)) =
        scenarioLocal @ [mkQuote ''a'' ''b'']"
  proof -
    from importOnload_validates[of "JArr ?xs" True scenarioState]
    have "filter spec_validElement ?xs \<noteq> [] \<longrightarrow>
         fst (importOnload (JsonText (JArr ?xs)) True scenarioState) = None \<and>
         quotes (snd (importOnload (JsonText (JArr ?xs)) True scenarioState)) =
           map toQuote (filter spec_validElement ?xs) \<and>
         quotes (snd (importOnload (JsonText (JArr ?xs)) False scenarioState)) =
           quotes scenarioState @
             filter (\<lambda>q. quoteKey q \<notin> quoteKey ` set (quotes scenarioState))
               (map toQuote (filter spec_validElement ?xs))"
      by blast
    then show ?thesis
      unfolding k using n by (simp add: t q)
  qed
  have 2: "map quoteJson (quotes (snd (importOnload (JsonText (JArr ?ys)) True scenarioState))) =
      [?k]"
  proof -
    from importOnload_validates[of "JArr ?ys" True scenarioState]
    have "filter spec_validElement ?ys \<noteq> [] \<longrightarrow>
         map quoteJson (quotes (snd (importOnload (JsonText (JArr ?ys)) True scenarioState))) =
           filter spec_validElement ?ys"
      by blast
    then show ?thesis
      unfolding ky by simp
  qed
  have 3: "importOnload (JsonText ?a) True scenarioState =
      (Some (Error ''Invalid format: Expected an array of quotes''), scenarioState)"
    using importOnload_validates[of ?a True scenarioState] by simp
  have 4: "importOnload (JsonText (JArr [?b])) True scenarioState =
      (Some (Error ''No valid quotes found in the file''), scenarioState)"
  proof -
    from importOnload_validates[of "JArr [?b]" True scenarioState]
    have "filter spec_validElement [?b] = [] \<longrightarrow>
         importOnload (JsonText (JArr [?b])) True scenarioState =
           (Some (Error ''No valid quotes found in the file''), scenarioState)"
      by blast
    with kb show ?thesis by blast
  qed
  from 1 2 3 4 show ?thesis by blast
qed

subsection \<open>Loading the collection\<close>

lemma initializeDefaultQuotes_props:
  "quotes (initializeDefaultQuotes st) = defaultQuotes"
  "\<not> quotaExceeded st \<Longrightarrow>
     getItem (localStorage (initializeDefaultQuotes st)) QUOTES_STORAGE_KEY =
       Some (JSON_stringify (quotesJson defaultQuotes))"
  "quotaExceeded st \<Longrightarrow> localStorage (initializeDefaultQuotes st) = localStorage st"
  by (simp_all add: initializeDefaultQuotes_def saveQuotes_def getItem_def setItem_def)

lemma length_defaultQuotes: "length defaultQuotes = 10"
  by (simp add: defaultQuotes_def)

text \<open>
  Claim C5 says that \<^verbatim>\<open>loadQuotes\<close> never raises and that, whenever the persisted data is
  missing or corrupt, the collection afterwards is the default set of ten quotes and
  that set has been persisted. The code catches what \<^verbatim>\<open>JSON.parse\<close> and the read of the
  length throw, and checks nothing else; and \<^verbatim>\<open>saveQuotes\<close> catches a refused write.
  The two evaluations below are what the claim does not cover: a stored array whose
  only element has no category parses, so it becomes the collection as it is and no
  default is installed; and with nothing stored and a store that refuses the write,
  the defaults are installed in memory and nothing is persisted.
\<close>

theorem loadQuotes_fails_soft_counterexample:
  "loadQuotes
     (scenarioState\<lparr>localStorage :=
        setItem (localStorage scenarioState) QUOTES_STORAGE_KEY
          (JsonText (JArr [JObj [(js ''text'', JStr (js ''a''))]]))\<rparr>) =
     Inr (Untyped (JArr [JObj [(js ''text'', JStr (js ''a''))]])
       (scenarioState\<lparr>localStorage :=
          setItem (localStorage scenarioState) QUOTES_STORAGE_KEY
            (JsonText (JArr [JObj [(js ''text'', JStr (js ''a''))]]))\<rparr>)) \<and>
   \<not> (\<exists>st'. loadQuotes
          (scenarioState\<lparr>localStorage :=
             setItem (localStorage scenarioState) QUOTES_STORAGE_KEY
               (JsonText (JArr [JObj [(js ''text'', JStr (js ''a''))]]))\<rparr>) = Inr (Typed st') \<and>
        quotes st' = defaultQuotes) \<and>
   getItem (localStorage scenarioState) QUOTES_STORAGE_KEY = None \<and>
   (\<exists>st'. loadQuotes (scenarioState\<lparr>quotaExceeded := True\<rparr>) = Inr (Typed st') \<and>
      quotes st' = defaultQuotes \<and>
      getItem (localStorage st') QUOTES_STORAGE_KEY = None)"
proof -
  let ?v = "JArr [JObj [(js ''text'', JStr (js ''a''))]]"
  let ?st = "scenarioState\<lparr>localStorage :=
        setItem (localStorage scenarioState) QUOTES_STORAGE_KEY (JsonText ?v)\<rparr>"
  have 1: "loadQuotes ?st = Inr (Untyped ?v ?st)"
    by (simp add: loadQuotes_def loadQuotes_try_def assignQuotes_def isQuoteObject_def
        getItem_def setItem_def)
  have m: "getItem (localStorage scenarioState) QUOTES_STORAGE_KEY = None"
    by (simp add: scenarioState_def getItem_def QUOTES_STORAGE_KEY_def SERVER_QUOTES_KEY_def
        LAST_SYNC_TIME_KEY_def)
  have 2: "loadQuotes (scenarioState\<lparr>quotaExceeded := True\<rparr>) =
      Inr (Typed (initializeDefaultQuotes (scenarioState\<lparr>quotaExceeded := True\<rparr>)))"
    using m by (simp add: loadQuotes_def)
  have 3: "getItem (localStorage (initializeDefaultQuotes (scenarioState\<lparr>quotaExceeded := True\<rparr>)))
      QUOTES_STORAGE_KEY = None"
    using m by (simp add: initializeDefaultQuotes_props(3))
  show ?thesis
    using 1 2 3 m by (simp add: initializeDefaultQuotes_props(1))
qed

text \<open>
  Claim C5 as amended: whatever is stored under the collection key, \<^verbatim>\<open>loadQuotes\<close>
  returns and no exception leaves it. When nothing is stored under the key, or what is
  stored is a text that \<^verbatim>\<open>JSON.parse\<close> rejects (the empty text among them), or the text
  \<^verbatim>\<open>null\<close>, the collection afterwards is the default set of ten quotes; the store then
  holds that set's serialisation under the key if it accepts the write, and is
  unchanged if it refuses it. A stored text that parses to any other value becomes the
  value of \<^verbatim>\<open>quotes\<close> as it is, and nothing else changes: a list of quotes when it is an
  array of objects with a string text and a string category, and the unchecked value
  otherwise.
\<close>

theorem loadQuotes_fails_soft:
  "(\<exists>r. loadQuotes st = Inr r) \<and>
   ((getItem (localStorage st) QUOTES_STORAGE_KEY = None \<or>
     (\<exists>s e. getItem (localStorage st) QUOTES_STORAGE_KEY = Some s \<and> JSON_parse s = Inl e) \<or>
     getItem (localStorage st) QUOTES_STORAGE_KEY = Some (JsonText JNull)) \<longrightarrow>
    (\<exists>st'. loadQuotes st = Inr (Typed st') \<and>
       quotes st' = defaultQuotes \<and>
       length (quotes st') = 10 \<and>
       (\<not> quotaExceeded st \<longrightarrow>
          getItem (localStorage st') QUOTES_STORAGE_KEY =
            Some (JSON_stringify (quotesJson defaultQuotes))) \<and>
       (quotaExceeded st \<longrightarrow> localStorage st' = localStorage st))) \<and>
   (\<forall>v. getItem (localStorage st) QUOTES_STORAGE_KEY = Some (JsonText v) \<and> v \<noteq> JNull \<longrightarrow>
      (\<forall>qs. asQuotes v = Some qs \<longrightarrow> loadQuotes st = Inr (Typed (st\<lparr>quotes := qs\<rparr>))) \<and>
      (asQuotes v = None \<longrightarrow> loadQuotes st = Inr (Untyped v st)))"
proof (intro conjI impI allI)
  show "\<exists>r. loadQuotes st = Inr r"
    by (simp add: loadQuotes_def split: option.splits sum.splits)
next
  assume a: "getItem (localStorage st) QUOTES_STORAGE_KEY = None \<or>
     (\<exists>s e. getItem (localStorage st) QUOTES_STORAGE_KEY = Some s \<and> JSON_parse s = Inl e) \<or>
     getItem (localStorage st) QUOTES_STORAGE_KEY = Some (JsonText JNull)"
  have "loadQuotes st = Inr (Typed (initializeDefaultQuotes st))"
    using a by (auto simp: loadQuotes_def loadQuotes_try_def)
  then show "\<exists>st'. loadQuotes st = Inr (Typed st') \<and>
       quotes st' = defaultQuotes \<and>
       length (quotes st') = 10 \<and>
       (\<not> quotaExceeded st \<longrightarrow>
          getItem (localStorage st') QUOTES_STORAGE_KEY =
            Some (JSON_stringify (quotesJson defaultQuotes))) \<and>
       (quotaExceeded st \<longrightarrow> localStorage st' = localStorage st)"
    by (simp add: initializeDefaultQuotes_props length_defaultQuotes)
next
  fix v qs
  assume "getItem (localStorage st) QUOTES_STORAGE_KEY = Some (JsonText v) \<and> v \<noteq> JNull"
    and "asQuotes v = Some qs"
  then show "loadQuotes st = Inr (Typed (st\<lparr>quotes := qs\<rparr>))"
    by (cases v) (simp_all add: loadQuotes_def loadQuotes_try_def assignQuotes_def)
next
  fix v
  assume "getItem (localStorage st) QUOTES_STORAGE_KEY = Some (JsonText v) \<and> v \<noteq> JNull"
    and "asQuotes v = None"
  then show "loadQuotes st = Inr (Untyped v st)"
    by (cases v) (simp_all add: loadQuotes_def loadQuotes_try_def assignQuotes_def)
qed

text \<open>
  The scenario state, whose store has no collection; the same state with a truncated
  text, and with the text \<^verbatim>\<open>null\<close>, under the collection key; the scenario state with a
  store that refuses the write; and a stored number.
\<close>

theorem loadQuotes_fails_soft_witness:
  "(\<exists>st'. loadQuotes scenarioState = Inr (Typed st') \<and>
      quotes st' = defaultQuotes \<and>
      getItem (localStorage st') QUOTES_STORAGE_KEY =
        Some (JSON_stringify (quotesJson defaultQuotes))) \<and>
   (\<exists>st'. loadQuotes
             (scenarioState\<lparr>localStorage :=
                setItem (localStorage scenarioState) QUOTES_STORAGE_KEY
                  (NotJson (js ''[{text: a, categ''))\<rparr>) = Inr (Typed st') \<and>
      quotes st' = defaultQuotes \<and>
      getItem (localStorage st') QUOTES_STORAGE_KEY =
        Some (JSON_stringify (quotesJson defaultQuotes))) \<and>
   (\<exists>st'. loadQuotes
             (scenarioState\<lparr>localStorage :=
                setItem (localStorage scenarioState) QUOTES_STORAGE_KEY (JsonText JNull)\<rparr>) =
             Inr (Typed st') \<and>
      quotes st' = defaultQuotes \<and>
      getItem (localStorage st') QUOTES_STORAGE_KEY =
        Some (JSON_stringify (quotesJson defaultQuotes))) \<and>
   (\<exists>st'. loadQuotes (scenarioState\<lparr>quotaExceeded := True\<rparr>) = Inr (Typed st') \<and>
      quotes st' = defaultQuotes \<and>
      localStorage st' = localStorage scenarioState) \<and>
   loadQuotes
     (scenarioState\<lparr>localStorage :=
        setItem (localStorage scenarioState) QUOTES_STORAGE_KEY (JsonText (JNum 5))\<rparr>) =
     Inr (Untyped (JNum 5)
       (scenarioState\<lparr>localStorage :=
          setItem (localStorage scenarioState) QUOTES_STORAGE_KEY (JsonText (JNum 5))\<rparr>))"
proof -
  let ?corrupt = "scenarioState\<lparr>localStorage :=
                setItem (localStorage scenarioState) QUOTES_STORAGE_KEY
                  (NotJson (js ''[{text: a, categ''))\<rparr>"
  let ?null = "scenarioState\<lparr>localStorage :=
                setItem (localStorage scenarioState) QUOTES_STORAGE_KEY (JsonText JNull)\<rparr>"
  let ?full = "scenarioState\<lparr>quotaExceeded := True\<rparr>"
  let ?five = "scenarioState\<lparr>localStorage :=
        setItem (localStorage scenarioState) QUOTES_STORAGE_KEY (JsonText (JNum 5))\<rparr>"
  have m: "getItem (localStorage scenarioState) QUOTES_STORAGE_KEY = None"
    "getItem (localStorage ?full) QUOTES_STORAGE_KEY = None"
    by (simp_all add: scenarioState_def getItem_def QUOTES_STORAGE_KEY_def SERVER_QUOTES_KEY_def
        LAST_SYNC_TIME_KEY_def)
  have c: "\<exists>s e. getItem (localStorage ?corrupt) QUOTES_STORAGE_KEY = Some s \<and>
      JSON_parse s = Inl e"
    by (simp add: getItem_def setItem_def)
  have n: "getItem (localStorage ?null) QUOTES_STORAGE_KEY = Some (JsonText JNull)"
    by (simp add: getItem_def setItem_def)
  have f: "getItem (localStorage ?five) QUOTES_STORAGE_KEY = Some (JsonText (JNum 5)) \<and>
      JNum 5 \<noteq> JNull"
    by (simp add: getItem_def setItem_def)
  have x: "\<not> quotaExceeded scenarioState" "\<not> quotaExceeded ?corrupt" "\<not> quotaExceeded ?null"
    "quotaExceeded ?full" "localStorage ?full = localStorage scenarioState"
    by (simp_all add: scenarioState_def)
  have a: "asQuotes (JNum 5) = None"
    by simp
  show ?thesis
    using loadQuotes_fails_soft[of scenarioState] loadQuotes_fails_soft[of ?corrupt]
      loadQuotes_fails_soft[of ?null] loadQuotes_fails_soft[of ?full]
      loadQuotes_fails_soft[of ?five] m c n f x a
    by metis
qed

text \<open>A collection that \<^verbatim>\<open>saveQuotes\<close> wrote is read back as it was.\<close>

lemma asQuotes_quotesJson: "asQuotes (quotesJson qs) = Some qs"
  by (simp add: quotesJson_def list_all_iff isQuoteObject_quoteJson toQuote_quoteJson
      map_idI)

lemma loadQuotes_saved:
  assumes "getItem (localStorage st) QUOTES_STORAGE_KEY = Some (JSON_stringify (quotesJson qs))"
  shows "loadQuotes st = Inr (Typed (st\<lparr>quotes := qs\<rparr>))"
proof -
  have "js_length (quotesJson qs) = Inr (Some (JNum (int (length qs))))"
    by (simp add: quotesJson_def)
  then have "loadQuotes_try (JSON_stringify (quotesJson qs)) st = Inr (Typed (st\<lparr>quotes := qs\<rparr>))"
    by (simp add: loadQuotes_try_def JSON_stringify_def assignQuotes_def asQuotes_quotesJson)
  with assms show ?thesis
    by (simp add: loadQuotes_def) (simp add: JSON_stringify_def)
qed

subsection \<open>Showing a random quote\<close>

text \<open>When the loop returns, its condition is false at the index it returns.\<close>

lemma drawIndex_exit:
  assumes "drawIndex rand k filteredQuotes lastQuote = Some r"
  shows "\<not> (strictEq (elemAt filteredQuotes (fst r)) lastQuote \<and> 1 < length filteredQuotes)"
proof (rule drawIndex.raw_induct
    [where P = "\<lambda>rand k fq lq r. \<not> (strictEq (elemAt fq (fst r)) lq \<and> 1 < length fq)",
      OF _ assms], goal_cases)
  case (1 f rand k fq lq r)
  show ?case
  proof (cases "strictEq (elemAt fq \<lfloor>rand k * real (length fq)\<rfloor>) lq \<and> 1 < length fq")
    case True
    with 1(2) have "f rand (Suc k) fq lq = Some r"
      by (simp add: Let_def)
    then show ?thesis by (rule 1(1))
  next
    case False
    with 1(2) have "r = (\<lfloor>rand k * real (length fq)\<rfloor>, Suc k)"
      by (auto simp: Let_def)
    with False show ?thesis by simp
  qed
qed

lemma elemAt_Some_mem: "elemAt xs i = Some x \<Longrightarrow> x \<in> set xs"
  by (auto simp: elemAt_def split: if_splits)

lemma elemAt_singleton_0: "elemAt [x] 0 = Some x"
  by (simp add: elemAt_def)

text \<open>
  Claim C9, with the pool being the quotes of the selected category and the previously
  shown quote being \<^verbatim>\<open>quotes[lastQuoteIndex]\<close>. When the pool has exactly one element,
  \<^verbatim>\<open>showRandomQuote\<close> returns and displays that element, whatever was shown before. When
  the pool has two or more elements and \<^verbatim>\<open>showRandomQuote\<close> returns, it displays an
  element of the pool that is not the object shown before: the two are different
  references, whether or not their fields are equal.
\<close>

theorem showRandomQuote_pick:
  "((if selectedCategory = js ''all'' then objects vs
     else filter (\<lambda>q. category (snd q) = selectedCategory) (objects vs)) = [q] \<longrightarrow>
      (\<exists>vs'. showRandomQuote rand selectedCategory vs = Some (Inr vs') \<and>
             displayed vs' = Some q)) \<and>
   (2 \<le> length (if selectedCategory = js ''all'' then objects vs
                 else filter (\<lambda>q. category (snd q) = selectedCategory) (objects vs)) \<longrightarrow>
      (\<forall>vs'. showRandomQuote rand selectedCategory vs = Some (Inr vs') \<longrightarrow>
         (\<exists>q'. displayed vs' = Some q' \<and>
            q' \<in> set (if selectedCategory = js ''all'' then objects vs
                       else filter (\<lambda>q. category (snd q) = selectedCategory) (objects vs)) \<and>
            \<not> strictEq (Some q') (elemAt (objects vs) (lastQuoteIndex vs)))))"
proof (intro conjI impI allI)
  let ?pool = "if selectedCategory = js ''all'' then objects vs
     else filter (\<lambda>q. category (snd q) = selectedCategory) (objects vs)"
  {
    assume "?pool = [q]"
    then show "\<exists>vs'. showRandomQuote rand selectedCategory vs = Some (Inr vs') \<and>
        displayed vs' = Some q"
      by (simp add: showRandomQuote_def Let_def elemAt_singleton_0)
  }
  {
    fix vs'
    assume len: "2 \<le> length ?pool"
      and ret: "showRandomQuote rand selectedCategory vs = Some (Inr vs')"
    from len have ne: "length ?pool \<noteq> 0" "length ?pool \<noteq> 1" by auto
    from ret ne obtain randomIndex k q' where
        d: "drawIndex rand (calls vs) ?pool (elemAt (objects vs) (lastQuoteIndex vs)) =
              Some (randomIndex, k)"
        and e: "elemAt ?pool randomIndex = Some q'"
        and v: "displayed vs' = Some q'"
      unfolding showRandomQuote_def Let_def
      by (auto split: option.splits if_splits)
    from drawIndex_exit[OF d] len e
    have "\<not> strictEq (Some q') (elemAt (objects vs) (lastQuoteIndex vs))"
      by simp
    with v elemAt_Some_mem[OF e]
    show "\<exists>q'. displayed vs' = Some q' \<and> q' \<in> set ?pool \<and>
            \<not> strictEq (Some q') (elemAt (objects vs) (lastQuoteIndex vs))"
      by blast
  }
qed

text \<open>
  Two objects with the same fields, the first of them shown last: the first draw gives
  the first object again and is rejected, the second draw gives the other object, which
  is displayed. And a category with one quote, which is displayed although it was
  shown last.
\<close>

theorem showRandomQuote_pick_witness:
  "showRandomQuote (\<lambda>k. if k = 0 then 0 else 1 / 2) (js ''all'')
      \<lparr>objects = [(1, mkQuote ''a'' ''b''), (2, mkQuote ''a'' ''b'')],
       lastQuoteIndex = 0, displayed = Some (1, mkQuote ''a'' ''b''), calls = 0\<rparr> =
     Some (Inr \<lparr>objects = [(1, mkQuote ''a'' ''b''), (2, mkQuote ''a'' ''b'')],
                lastQuoteIndex = 1, displayed = Some (2, mkQuote ''a'' ''b''), calls = 2\<rparr>) \<and>
   \<not> strictEq (Some (2, mkQuote ''a'' ''b''))
       (elemAt [(1, mkQuote ''a'' ''b''), (2, mkQuote ''a'' ''b'')] 0) \<and>
   snd (2 :: nat, mkQuote ''a'' ''b'') = snd (1 :: nat, mkQuote ''a'' ''b'') \<and>
   (\<exists>vs'. showRandomQuote (\<lambda>k. 0) (js ''Life'')
            \<lparr>objects = [(1, mkQuote ''a'' ''Life''), (2, mkQuote ''c'' ''Work'')],
             lastQuoteIndex = 0, displayed = Some (1, mkQuote ''a'' ''Life''), calls = 0\<rparr> =
          Some (Inr vs') \<and> displayed vs' = Some (1, mkQuote ''a'' ''Life''))"
proof -
  let ?vs = "\<lparr>objects = [(1 :: nat, mkQuote ''a'' ''b''), (2, mkQuote ''a'' ''b'')],
       lastQuoteIndex = 0, displayed = Some (1, mkQuote ''a'' ''b''), calls = 0\<rparr>"
  let ?vs' = "\<lparr>objects = [(1 :: nat, mkQuote ''a'' ''b''), (2, mkQuote ''a'' ''b'')],
                lastQuoteIndex = 1, displayed = Some (2, mkQuote ''a'' ''b''), calls = 2\<rparr>"
  let ?one = "\<lparr>objects = [(1 :: nat, mkQuote ''a'' ''Life''), (2, mkQuote ''c'' ''Work'')],
             lastQuoteIndex = 0, displayed = Some (1, mkQuote ''a'' ''Life''), calls = 0\<rparr>"
  have r: "showRandomQuote (\<lambda>k. if k = 0 then 0 else 1 / 2) (js ''all'') ?vs = Some (Inr ?vs')"
    by (simp add: showRandomQuote_def drawIndex.simps elemAt_def indexOf_def Let_def)
  have p: "(if js ''all'' = js ''all'' then objects ?vs
            else filter (\<lambda>q. category (snd q) = js ''all'') (objects ?vs)) =
           [(1, mkQuote ''a'' ''b''), (2, mkQuote ''a'' ''b'')]"
    by simp
  have o: "(if js ''Life'' = js ''all'' then objects ?one
            else filter (\<lambda>q. category (snd q) = js ''Life'') (objects ?one)) =
           [(1, mkQuote ''a'' ''Life'')]"
    by (simp add: category_mkQuote)
  from showRandomQuote_pick[of "js ''all''" ?vs _ "\<lambda>k. if k = 0 then 0 else 1 / 2"] r
  have "\<not> strictEq (Some (2, mkQuote ''a'' ''b''))
       (elemAt [(1, mkQuote ''a'' ''b''), (2, mkQuote ''a'' ''b'')] 0)"
    unfolding p by simp
  moreover from showRandomQuote_pick[of "js ''Life''" ?one "(1, mkQuote ''a'' ''Life'')" "\<lambda>k. 0"]
  have "\<exists>vs'. showRandomQuote (\<lambda>k. 0) (js ''Life'') ?one = Some (Inr vs') \<and>
          displayed vs' = Some (1, mkQuote ''a'' ''Life'')"
    unfolding o by simp
  ultimately show ?thesis using r by simp
qed

text \<open>
  \<^verbatim>\<open>lastQuoteIndex\<close> is where \<^verbatim>\<open>indexOf\<close> finds the quote displayed, so that
  \<^verbatim>\<open>quotes[lastQuoteIndex]\<close> is the quote shown last as long as the collection is not
  replaced: of two calls in a row, the second one, drawing from two or more quotes, does
  not display the object the first one displayed.
\<close>

lemma indexFrom_found:
  "x \<in> set ys \<Longrightarrow>
   i \<le> indexFrom i ys (Some x) \<and> indexFrom i ys (Some x) < i + int (length ys) \<and>
   fst (ys ! nat (indexFrom i ys (Some x) - i)) = fst x"
proof (induction ys arbitrary: i)
  case Nil
  then show ?case by simp
next
  case (Cons y ys)
  show ?case
  proof (cases "fst y = fst x")
    case True
    then show ?thesis by simp
  next
    case False
    with Cons.prems have "x \<in> set ys" by auto
    from Cons.IH[OF this, of "i + 1"]
    have j: "i + 1 \<le> indexFrom (i + 1) ys (Some x)"
        "indexFrom (i + 1) ys (Some x) < i + 1 + int (length ys)"
        "fst (ys ! nat (indexFrom (i + 1) ys (Some x) - (i + 1))) = fst x"
      by simp_all
    from j(1) have "nat (indexFrom (i + 1) ys (Some x) - i) =
        Suc (nat (indexFrom (i + 1) ys (Some x) - (i + 1)))"
      by linarith
    with j False show ?thesis by simp
  qed
qed

lemma elemAt_indexOf:
  assumes "x \<in> set ys"
  shows "strictEq (elemAt ys (indexOf ys (Some x))) (Some x)"
proof -
  from indexFrom_found[OF assms, of 0]
  have "0 \<le> indexOf ys (Some x)" "indexOf ys (Some x) < int (length ys)"
    "fst (ys ! nat (indexOf ys (Some x))) = fst x"
    by (simp_all add: indexOf_def)
  then show ?thesis by (simp add: elemAt_def)
qed

lemma showRandomQuote_remembers:
  assumes "showRandomQuote rand selectedCategory vs = Some (Inr vs')"
    and "displayed vs' = Some q"
  shows "objects vs' = objects vs \<and>
         strictEq (elemAt (objects vs') (lastQuoteIndex vs')) (Some q)"
proof -
  let ?pool = "if selectedCategory = js ''all'' then objects vs
     else filter (\<lambda>q. category (snd q) = selectedCategory) (objects vs)"
  from assms obtain randomIndex where
    e: "elemAt ?pool randomIndex = Some q"
    and v: "objects vs' = objects vs" "lastQuoteIndex vs' = indexOf (objects vs) (Some q)"
    unfolding showRandomQuote_def Let_def
    by (fastforce split: option.splits if_splits)
  from elemAt_Some_mem[OF e] have "q \<in> set (objects vs)"
    by (auto split: if_splits)
  from elemAt_indexOf[OF this] v show ?thesis by simp
qed

lemma drawIndex_second_call:
  assumes "drawIndex rand k filteredQuotes (elemAt xs i) = Some (randomIndex, k')"
    and "elemAt filteredQuotes randomIndex = Some q2" and "2 \<le> length filteredQuotes"
    and "strictEq (elemAt xs i) (Some q1)"
  shows "fst q2 \<noteq> fst q1"
proof -
  from assms(4) obtain x where x: "elemAt xs i = Some x" "fst x = fst q1"
    by (cases "elemAt xs i") auto
  from drawIndex_exit[OF assms(1)] assms(2,3)
  have "\<not> strictEq (Some q2) (elemAt xs i)"
    by simp
  with x show ?thesis by simp
qed

lemma showRandomQuote_no_immediate_repeat:
  assumes "showRandomQuote rand c1 vs = Some (Inr vs1)" and "displayed vs1 = Some q1"
    and "showRandomQuote rand c2 vs1 = Some (Inr vs2)" and "displayed vs2 = Some q2"
    and "2 \<le> length (if c2 = js ''all'' then objects vs1
                       else filter (\<lambda>q. category (snd q) = c2) (objects vs1))"
  shows "fst q2 \<noteq> fst q1"
proof -
  let ?pool = "if c2 = js ''all'' then objects vs1
     else filter (\<lambda>q. category (snd q) = c2) (objects vs1)"
  from assms(5) have ne: "length ?pool \<noteq> 0" "length ?pool \<noteq> 1" by auto
  from assms(3,4) ne obtain randomIndex k where
      d: "drawIndex rand (calls vs1) ?pool (elemAt (objects vs1) (lastQuoteIndex vs1)) =
            Some (randomIndex, k)"
      and e: "elemAt ?pool randomIndex = Some q2"
    unfolding showRandomQuote_def Let_def
    by (auto split: option.splits if_splits)
  from showRandomQuote_remembers[OF assms(1,2)]
  have "strictEq (elemAt (objects vs1) (lastQuoteIndex vs1)) (Some q1)"
    by (rule conjunct2)
  from drawIndex_second_call[OF d e assms(5) this] show ?thesis .
qed

end
